theory Spec2Isabelle
  imports Complex_Main
begin

section \<open>The postprocess fragment shader \<open>POST_FS\<close>\<close>

text \<open>
  The GLSL program \<open>POST_FS\<close> of \<open>main3.py\<close> runs once per pixel. Its \<open>float\<close>s are
  modelled by \<open>real\<close> (exact arithmetic, no rounding), a \<open>vec2\<close> by a pair and a
  \<open>vec4\<close> by a quadruple. The sampler \<open>uScene\<close> is the function from a texture
  coordinate to the colour that \<open>texture2D\<close> returns there. Each local of \<open>main()\<close> is a
  definition of its own, named after the local, so that statements can speak about it.
\<close>

type_synonym vec2 = "real \<times> real"
type_synonym vec4 = "real \<times> real \<times> real \<times> real"

record uniforms =
  uResolution :: vec2
  uStrength :: real
  uRadius :: real
  uEHpx :: real

text \<open>
  What one invocation does: the colour written to \<open>gl_FragColor\<close>, and the texture
  coordinates at which \<open>uScene\<close> was sampled, in order.
\<close>

record frag_result =
  gl_FragColor :: vec4
  texture_reads :: "vec2 list"

definition length_vec2 :: "vec2 \<Rightarrow> real" where
  "length_vec2 p = sqrt (fst p * fst p + snd p * snd p)"

definition clamp :: "real \<Rightarrow> real \<Rightarrow> real \<Rightarrow> real" where
  "clamp x lo hi = min (max x lo) hi"

definition pow :: "real \<Rightarrow> real \<Rightarrow> real" where
  "pow x y = x powr y"

text \<open>\<open>vec2 p = (gl_FragCoord.xy - 0.5*res)\<close>\<close>

definition frag_p :: "uniforms \<Rightarrow> vec2 \<Rightarrow> vec2" where
  "frag_p u fc = (fst fc - 0.5 * fst (uResolution u), snd fc - 0.5 * snd (uResolution u))"

text \<open>\<open>float minHalf = min(res.x, res.y) * 0.5\<close>\<close>

definition frag_minHalf :: "uniforms \<Rightarrow> real" where
  "frag_minHalf u = min (fst (uResolution u)) (snd (uResolution u)) * 0.5"

text \<open>\<open>float d = length(p)\<close> and \<open>float dnorm = d / minHalf\<close>\<close>

definition frag_d :: "uniforms \<Rightarrow> vec2 \<Rightarrow> real" where
  "frag_d u fc = length_vec2 (frag_p u fc)"

definition frag_dnorm :: "uniforms \<Rightarrow> vec2 \<Rightarrow> real" where
  "frag_dnorm u fc = frag_d u fc / frag_minHalf u"

text \<open>\<open>vec2 dir = (d > 1e-5) ? (p / d) : vec2(0.0,0.0)\<close>\<close>

definition frag_dir :: "uniforms \<Rightarrow> vec2 \<Rightarrow> vec2" where
  "frag_dir u fc =
     (if frag_d u fc > 1 / 100000
      then (fst (frag_p u fc) / frag_d u fc, snd (frag_p u fc) / frag_d u fc)
      else (0, 0))"

text \<open>
  \<open>float warp = 0.0; if (dnorm < r){ float t = 1.0 - (dnorm / r);
  warp = uStrength * t * (1.0 / (dnorm + 0.02)); }\<close> with \<open>r = uRadius\<close>
\<close>

definition frag_warp :: "uniforms \<Rightarrow> vec2 \<Rightarrow> real" where
  "frag_warp u fc =
     (let r = uRadius u; dnorm = frag_dnorm u fc
      in if dnorm < r
         then (let t = 1 - dnorm / r in uStrength u * t * (1 / (dnorm + 0.02)))
         else 0)"

text \<open>\<open>vec2 disp = dir * warp * (minHalf / res)\<close> and \<open>vec2 uv2 = uv + disp\<close>\<close>

definition frag_disp :: "uniforms \<Rightarrow> vec2 \<Rightarrow> vec2" where
  "frag_disp u fc =
     (fst (frag_dir u fc) * frag_warp u fc * (frag_minHalf u / fst (uResolution u)),
      snd (frag_dir u fc) * frag_warp u fc * (frag_minHalf u / snd (uResolution u)))"

definition frag_uv2 :: "uniforms \<Rightarrow> vec2 \<Rightarrow> vec2 \<Rightarrow> vec2" where
  "frag_uv2 u fc vUV = (fst vUV + fst (frag_disp u fc), snd vUV + snd (frag_disp u fc))"

text \<open>\<open>float vig = 1.0 - pow(dnorm, 2.0) * 0.25\<close>\<close>

definition frag_vig :: "uniforms \<Rightarrow> vec2 \<Rightarrow> real" where
  "frag_vig u fc = 1 - pow (frag_dnorm u fc) 2 * 0.25"

text \<open>\<open>col.rgb *= k\<close>\<close>

definition scale_rgb :: "vec4 \<Rightarrow> real \<Rightarrow> vec4" where
  "scale_rgb col k = (case col of (r, g, b, a) \<Rightarrow> (r * k, g * k, b * k, a))"

text \<open>
  \<open>main()\<close>: the event-horizon test returns first; otherwise the scene is sampled at
  \<open>uv2\<close> and the colour is scaled by the clamped vignette.
\<close>

definition POST_FS_main :: "uniforms \<Rightarrow> (vec2 \<Rightarrow> vec4) \<Rightarrow> vec2 \<Rightarrow> vec2 \<Rightarrow> frag_result" where
  "POST_FS_main u uScene fc vUV =
     (if frag_d u fc \<le> uEHpx u
      then \<lparr>gl_FragColor = (0, 0, 0, 1), texture_reads = []\<rparr>
      else (let uv2 = frag_uv2 u fc vUV;
                col = uScene uv2
            in \<lparr>gl_FragColor = scale_rgb col (clamp (frag_vig u fc) 0.8 1.0),
                texture_reads = [uv2]\<rparr>))"


section \<open>The OpenGL implementation as an environment\<close>

text \<open>
  The Python functions of \<open>main3.py\<close> drive an OpenGL implementation. Its object
  tables are the state below; what the implementation decides by itself (whether a
  shader compiles, whether a program links, whether a framebuffer is complete, and the
  info logs it writes) is a parameter, the \<open>driver\<close>. Names are handed out from one
  counter. OpenGL edits the object that is bound to a target
  (\<open>glBindTexture(t); glTexImage2D(...); glBindTexture(0)\<close>); each primitive
  here takes the object it edits as an argument instead. The binding's own error
  reporting (a \<open>GLError\<close> raised for an invalid argument) is outside the model: the
  errors below are the ones \<open>main3.py\<close> raises itself.
\<close>

datatype py_error = RuntimeError string | ZeroDivisionError

datatype shader_type = GL_VERTEX_SHADER | GL_FRAGMENT_SHADER

record shader_obj =
  sh_type :: shader_type
  sh_source :: string
  sh_compile_status :: bool
  sh_info_log :: string
  sh_delete_flag :: bool

record program_obj =
  pr_attached :: "nat list"
  pr_link_status :: bool
  pr_info_log :: string

record driver =
  glsl_compile :: "shader_type \<Rightarrow> string \<Rightarrow> bool \<times> string"
  glsl_link :: "(shader_type \<times> string) list \<Rightarrow> bool \<times> string"
  framebuffer_complete :: "int \<times> int \<Rightarrow> int \<times> int \<Rightarrow> bool"

record gl_state =
  next_name :: nat
  shaders :: "nat \<rightharpoonup> shader_obj"
  programs :: "nat \<rightharpoonup> program_obj"
  textures :: "nat \<rightharpoonup> int \<times> int"
  renderbuffers :: "nat \<rightharpoonup> int \<times> int"
  framebuffers :: "nat \<rightharpoonup> nat \<times> nat"
  buffers :: "nat \<rightharpoonup> nat"

definition gl_initial :: gl_state where
  "gl_initial = \<lparr>next_name = 1, shaders = Map.empty, programs = Map.empty,
     textures = Map.empty, renderbuffers = Map.empty, framebuffers = Map.empty,
     buffers = Map.empty\<rparr>"

text \<open>\<open>glGenTextures(1)\<close>, \<open>glGenRenderbuffers(1)\<close>, \<open>glGenFramebuffers(1)\<close>, \<open>glGenBuffers(1)\<close>\<close>

definition glGen :: "gl_state \<Rightarrow> nat \<times> gl_state" where
  "glGen g = (next_name g, g\<lparr>next_name := Suc (next_name g)\<rparr>)"

definition glCreateShader :: "shader_type \<Rightarrow> gl_state \<Rightarrow> nat \<times> gl_state" where
  "glCreateShader ty g =
     (next_name g,
      g\<lparr>next_name := Suc (next_name g),
        shaders := (shaders g)(next_name g \<mapsto>
          \<lparr>sh_type = ty, sh_source = [], sh_compile_status = False, sh_info_log = [],
           sh_delete_flag = False\<rparr>)\<rparr>)"

definition glShaderSource :: "nat \<Rightarrow> string \<Rightarrow> gl_state \<Rightarrow> gl_state" where
  "glShaderSource sid src g =
     (case shaders g sid of
        None \<Rightarrow> g
      | Some sh \<Rightarrow> g\<lparr>shaders := (shaders g)(sid \<mapsto> sh\<lparr>sh_source := src\<rparr>)\<rparr>)"

definition glCompileShader :: "driver \<Rightarrow> nat \<Rightarrow> gl_state \<Rightarrow> gl_state" where
  "glCompileShader drv sid g =
     (case shaders g sid of
        None \<Rightarrow> g
      | Some sh \<Rightarrow>
          (case glsl_compile drv (sh_type sh) (sh_source sh) of
             (ok, info_log) \<Rightarrow>
               g\<lparr>shaders := (shaders g)(sid \<mapsto>
                   sh\<lparr>sh_compile_status := ok, sh_info_log := info_log\<rparr>)\<rparr>))"

text \<open>\<open>glGetShaderiv(sid, GL_COMPILE_STATUS)\<close> and \<open>glGetShaderInfoLog(sid)\<close>\<close>

definition glGetShaderiv_COMPILE_STATUS :: "nat \<Rightarrow> gl_state \<Rightarrow> bool" where
  "glGetShaderiv_COMPILE_STATUS sid g =
     (case shaders g sid of None \<Rightarrow> False | Some sh \<Rightarrow> sh_compile_status sh)"

definition glGetShaderInfoLog :: "nat \<Rightarrow> gl_state \<Rightarrow> string" where
  "glGetShaderInfoLog sid g =
     (case shaders g sid of None \<Rightarrow> [] | Some sh \<Rightarrow> sh_info_log sh)"

definition glCreateProgram :: "gl_state \<Rightarrow> nat \<times> gl_state" where
  "glCreateProgram g =
     (next_name g,
      g\<lparr>next_name := Suc (next_name g),
        programs := (programs g)(next_name g \<mapsto>
          \<lparr>pr_attached = [], pr_link_status = False, pr_info_log = []\<rparr>)\<rparr>)"

definition glAttachShader :: "nat \<Rightarrow> nat \<Rightarrow> gl_state \<Rightarrow> gl_state" where
  "glAttachShader pid sid g =
     (case programs g pid of
        None \<Rightarrow> g
      | Some pr \<Rightarrow> g\<lparr>programs := (programs g)(pid \<mapsto> pr\<lparr>pr_attached := pr_attached pr @ [sid]\<rparr>)\<rparr>)"

text \<open>The sources handed to the linker: those of the attached shaders, in order.\<close>

definition attached_sources :: "gl_state \<Rightarrow> nat list \<Rightarrow> (shader_type \<times> string) list" where
  "attached_sources g sids =
     concat (map (\<lambda>sid. case shaders g sid of
                           None \<Rightarrow> []
                         | Some sh \<Rightarrow> [(sh_type sh, sh_source sh)]) sids)"

definition glLinkProgram :: "driver \<Rightarrow> nat \<Rightarrow> gl_state \<Rightarrow> gl_state" where
  "glLinkProgram drv pid g =
     (case programs g pid of
        None \<Rightarrow> g
      | Some pr \<Rightarrow>
          (case glsl_link drv (attached_sources g (pr_attached pr)) of
             (ok, info_log) \<Rightarrow>
               g\<lparr>programs := (programs g)(pid \<mapsto>
                   pr\<lparr>pr_link_status := ok, pr_info_log := info_log\<rparr>)\<rparr>))"

definition glGetProgramiv_LINK_STATUS :: "nat \<Rightarrow> gl_state \<Rightarrow> bool" where
  "glGetProgramiv_LINK_STATUS pid g =
     (case programs g pid of None \<Rightarrow> False | Some pr \<Rightarrow> pr_link_status pr)"

definition glGetProgramInfoLog :: "nat \<Rightarrow> gl_state \<Rightarrow> string" where
  "glGetProgramInfoLog pid g =
     (case programs g pid of None \<Rightarrow> [] | Some pr \<Rightarrow> pr_info_log pr)"

text \<open>A shader that is attached to a program is only flagged for deletion.\<close>

definition glDeleteShader :: "nat \<Rightarrow> gl_state \<Rightarrow> gl_state" where
  "glDeleteShader sid g =
     (case shaders g sid of
        None \<Rightarrow> g
      | Some sh \<Rightarrow> g\<lparr>shaders := (shaders g)(sid \<mapsto> sh\<lparr>sh_delete_flag := True\<rparr>)\<rparr>)"

text \<open>\<open>glTexImage2D\<close> and \<open>glRenderbufferStorage\<close> give the object its size.\<close>

definition glTexImage2D :: "nat \<Rightarrow> int \<Rightarrow> int \<Rightarrow> gl_state \<Rightarrow> gl_state" where
  "glTexImage2D tex w h g = g\<lparr>textures := (textures g)(tex \<mapsto> (w, h))\<rparr>"

definition glRenderbufferStorage :: "nat \<Rightarrow> int \<Rightarrow> int \<Rightarrow> gl_state \<Rightarrow> gl_state" where
  "glRenderbufferStorage rb w h g = g\<lparr>renderbuffers := (renderbuffers g)(rb \<mapsto> (w, h))\<rparr>"

text \<open>
  A framebuffer object is its colour attachment (a texture name) and its depth-stencil
  attachment (a renderbuffer name); 0 is no attachment.
\<close>

definition glBindFramebuffer_new :: "nat \<Rightarrow> gl_state \<Rightarrow> gl_state" where
  "glBindFramebuffer_new fb g = g\<lparr>framebuffers := (framebuffers g)(fb \<mapsto> (0, 0))\<rparr>"

definition glFramebufferTexture2D :: "nat \<Rightarrow> nat \<Rightarrow> gl_state \<Rightarrow> gl_state" where
  "glFramebufferTexture2D fb tex g =
     (case framebuffers g fb of
        None \<Rightarrow> g
      | Some (c, ds) \<Rightarrow> g\<lparr>framebuffers := (framebuffers g)(fb \<mapsto> (tex, ds))\<rparr>)"

definition glFramebufferRenderbuffer :: "nat \<Rightarrow> nat \<Rightarrow> gl_state \<Rightarrow> gl_state" where
  "glFramebufferRenderbuffer fb rb g =
     (case framebuffers g fb of
        None \<Rightarrow> g
      | Some (c, ds) \<Rightarrow> g\<lparr>framebuffers := (framebuffers g)(fb \<mapsto> (c, rb))\<rparr>)"

text \<open>
  \<open>glCheckFramebufferStatus(GL_FRAMEBUFFER) == GL_FRAMEBUFFER_COMPLETE\<close>: both
  attachments must exist; the driver decides from their sizes.
\<close>

definition glCheckFramebufferStatus_COMPLETE :: "driver \<Rightarrow> nat \<Rightarrow> gl_state \<Rightarrow> bool" where
  "glCheckFramebufferStatus_COMPLETE drv fb g =
     (case framebuffers g fb of
        None \<Rightarrow> False
      | Some (c, ds) \<Rightarrow>
          (case textures g c of
             None \<Rightarrow> False
           | Some tsize \<Rightarrow>
               (case renderbuffers g ds of
                  None \<Rightarrow> False
                | Some rsize \<Rightarrow> framebuffer_complete drv tsize rsize)))"

definition glDeleteFramebuffers :: "nat list \<Rightarrow> gl_state \<Rightarrow> gl_state" where
  "glDeleteFramebuffers ns g = g\<lparr>framebuffers := (\<lambda>n. if n \<in> set ns then None else framebuffers g n)\<rparr>"

definition glDeleteTextures :: "nat list \<Rightarrow> gl_state \<Rightarrow> gl_state" where
  "glDeleteTextures ns g = g\<lparr>textures := (\<lambda>n. if n \<in> set ns then None else textures g n)\<rparr>"

definition glDeleteRenderbuffers :: "nat list \<Rightarrow> gl_state \<Rightarrow> gl_state" where
  "glDeleteRenderbuffers ns g = g\<lparr>renderbuffers := (\<lambda>n. if n \<in> set ns then None else renderbuffers g n)\<rparr>"

definition glDeleteBuffers :: "nat list \<Rightarrow> gl_state \<Rightarrow> gl_state" where
  "glDeleteBuffers ns g = g\<lparr>buffers := (\<lambda>n. if n \<in> set ns then None else buffers g n)\<rparr>"

text \<open>\<open>glBufferData(target, size, data, GL_STATIC_DRAW)\<close>: the buffer's size in bytes.\<close>

definition glBufferData :: "nat \<Rightarrow> nat \<Rightarrow> gl_state \<Rightarrow> gl_state" where
  "glBufferData b nbytes g = g\<lparr>buffers := (buffers g)(b \<mapsto> nbytes)\<rparr>"

section \<open>Shader and framebuffer helpers of \<open>main3.py\<close>\<close>

text \<open>
  A raise is the left summand. \<open>f"Shader compile error:\n{log}"\<close> is the prefix, a
  line feed, and the info log, which the model holds as text already decoded.
  \<open>create_fbo_tex\<close> also sets the two texture filters, which the object tables do not
  record.
\<close>

definition compile_shader :: "driver \<Rightarrow> string \<Rightarrow> shader_type \<Rightarrow> gl_state \<Rightarrow> py_error + nat \<times> gl_state" where
  "compile_shader drv src shader_type g =
     (let (sid, g1) = glCreateShader shader_type g;
          g2 = glShaderSource sid src g1;
          g3 = glCompileShader drv sid g2;
          ok = glGetShaderiv_COMPILE_STATUS sid g3
      in if \<not> ok
         then (let info_log = glGetShaderInfoLog sid g3
               in Inl (RuntimeError (''Shader compile error:'' @ [CHR 0x0A] @ info_log)))
         else Inr (sid, g3))"

definition link_program :: "driver \<Rightarrow> string \<Rightarrow> string \<Rightarrow> gl_state \<Rightarrow> py_error + nat \<times> gl_state" where
  "link_program drv vs_src fs_src g =
     (case compile_shader drv vs_src GL_VERTEX_SHADER g of
        Inl e \<Rightarrow> Inl e
      | Inr (vs, g1) \<Rightarrow>
          (case compile_shader drv fs_src GL_FRAGMENT_SHADER g1 of
             Inl e \<Rightarrow> Inl e
           | Inr (fs, g2) \<Rightarrow>
               (let (pid, g3) = glCreateProgram g2;
                    g4 = glAttachShader pid vs g3;
                    g5 = glAttachShader pid fs g4;
                    g6 = glLinkProgram drv pid g5;
                    ok = glGetProgramiv_LINK_STATUS pid g6
                in if \<not> ok
                   then (let info_log = glGetProgramInfoLog pid g6
                         in Inl (RuntimeError (''Program link error:'' @ [CHR 0x0A] @ info_log)))
                   else (let g7 = glDeleteShader vs g6;
                             g8 = glDeleteShader fs g7
                         in Inr (pid, g8)))))"

definition create_fbo_tex :: "driver \<Rightarrow> int \<Rightarrow> int \<Rightarrow> gl_state \<Rightarrow> py_error + (nat \<times> nat \<times> nat) \<times> gl_state" where
  "create_fbo_tex drv w h g =
     (let (tex, g1) = glGen g;
          g2 = glTexImage2D tex w h g1;
          (rbo, g3) = glGen g2;
          g4 = glRenderbufferStorage rbo w h g3;
          (fbo, g5) = glGen g4;
          g6 = glBindFramebuffer_new fbo g5;
          g7 = glFramebufferTexture2D fbo tex g6;
          g8 = glFramebufferRenderbuffer fbo rbo g7
      in if \<not> glCheckFramebufferStatus_COMPLETE drv fbo g8
         then Inl (RuntimeError ''FBO incomplete'')
         else Inr ((fbo, tex, rbo), g8))"

text \<open>\<open>create_fs_quad\<close>: 16 floats of vertex data and 6 indices, 4 bytes each.\<close>

definition create_fs_quad :: "gl_state \<Rightarrow> (nat \<times> nat) \<times> gl_state" where
  "create_fs_quad g =
     (let (vbo, g1) = glGen g;
          g2 = glBufferData vbo (16 * 4) g1;
          (ebo, g3) = glGen g2;
          g4 = glBufferData ebo (6 * 4) g3
      in ((vbo, ebo), g4))"


section \<open>Program state, events and the calls the program makes\<close>

text \<open>
  Python's \<open>float\<close> is modelled by \<open>real\<close> and its \<open>int\<close> by \<open>int\<close>. The state holds the
  module's globals, the locals of \<open>main()\<close> that live across loop iterations, the
  OpenGL object tables, and \<open>trace\<close>: the calls that \<open>main()\<close> has made to pygame, to
  OpenGL and to the drawing functions of the module, in program order. The bodies of
  \<open>draw_grid\<close>, \<open>draw_scene_objects\<close> and \<open>draw_black_hole_overlay\<close> only submit
  immediate-mode geometry; each is one entry of the trace.
\<close>

type_synonym vec3 = "real \<times> real \<times> real"

datatype matrix_mode = GL_PROJECTION | GL_MODELVIEW

datatype buffer_target = GL_ARRAY_BUFFER | GL_ELEMENT_ARRAY_BUFFER

datatype call =
    PygameInit
  | PygameSetCaption string
  | PygameDisplaySetMode int int
  | PygameEventGet
  | PygameDisplayFlip
  | ClockTick nat
  | PygameQuit
  | GlViewport int int int int
  | GlClearColor real real real real
  | GlClear
  | GlEnableDepthTest
  | GlDisableDepthTest
  | GlMatrixMode matrix_mode
  | GlLoadIdentity
  | GluPerspective real real real real
  | GluLookAt vec3 vec3 vec3
  | CreateFboTex int int
  | CreateFsQuad
  | LinkProgram string string
  | GlDeleteFramebuffers "nat list"
  | GlDeleteTextures "nat list"
  | GlDeleteRenderbuffers "nat list"
  | GlDeleteBuffers "nat list"
  | GlBindFramebuffer nat
  | DrawGrid bool
  | DrawSceneObjects
  | GlUseProgram nat
  | GlGetUniformLocation nat string
  | GlUniform1i string int
  | GlUniform1f string real
  | GlUniform2f string real real
  | GlActiveTexture nat
  | GlBindTexture nat
  | GlBindBuffer buffer_target nat
  | GlGetAttribLocation nat string
  | GlEnableVertexAttribArray string
  | GlVertexAttribPointer string nat nat nat
  | GlDrawElements nat
  | GlDisableVertexAttribArray string
  | DrawBlackHoleOverlay int int int

record state =
  WIN_W :: int
  WIN_H :: int
  cam_dist :: real
  cam_yaw :: real
  cam_pitch :: real
  show_grid :: bool
  enable_lensing :: bool
  lens_strength :: real
  lens_radius :: real
  event_horizon_radius_px :: int
  fbo :: nat
  scene_tex :: nat
  rbo :: nat
  fs_vbo :: nat
  fs_ebo :: nat
  post_prog :: nat
  dragging :: bool
  last_mx :: int
  last_my :: int
  running :: bool
  gl :: gl_state
  trace :: "call list"

datatype key =
    K_ESCAPE | K_q | K_r | K_g | K_l | K_PLUS | K_EQUALS | K_MINUS
  | K_LEFTBRACKET | K_RIGHTBRACKET | K_other nat

datatype event =
    QUIT
  | KEYDOWN key
  | MOUSEBUTTONDOWN int "int \<times> int"
  | MOUSEBUTTONUP int "int \<times> int"
  | MOUSEMOTION "int \<times> int"
  | VIDEORESIZE int int
  | OTHER_EVENT nat

definition FOV :: real where "FOV = 60"
definition NEAR :: real where "NEAR = 0.1"
definition FAR :: real where "FAR = 200"

text \<open>
  The two shader sources are opaque to the program: it hands them to the driver. Their
  first lines stand for the texts; what \<open>POST_FS\<close> computes is \<open>POST_FS_main\<close> above.
\<close>

definition POST_VS :: string where
  "POST_VS = ''#version 120 attribute vec2 aPos; attribute vec2 aUV; varying vec2 vUV;''"

definition POST_FS :: string where
  "POST_FS = ''#version 120 uniform sampler2D uScene; uniform vec2 uResolution;''"

definition emit :: "call list \<Rightarrow> state \<Rightarrow> state" where
  "emit cs st = st\<lparr>trace := trace st @ cs\<rparr>"

text \<open>\<open>math.radians\<close> and Python's float \<open>%\<close> (the result has the sign of the divisor)\<close>

definition radians :: "real \<Rightarrow> real" where
  "radians x = x * pi / 180"

definition py_mod :: "real \<Rightarrow> real \<Rightarrow> real" where
  "py_mod x m = x - m * of_int \<lfloor>x / m\<rfloor>"

section \<open>Scene set-up functions\<close>

text \<open>\<open>set_perspective\<close>: \<open>float(w)/float(h)\<close> raises when \<open>h\<close> is 0.\<close>

definition set_perspective :: "int \<Rightarrow> int \<Rightarrow> state \<Rightarrow> py_error + state" where
  "set_perspective w h st =
     (if h = 0 then Inl ZeroDivisionError
      else Inr (emit [GlMatrixMode GL_PROJECTION, GlLoadIdentity,
                      GluPerspective FOV (of_int w / of_int h) NEAR FAR,
                      GlMatrixMode GL_MODELVIEW] st))"

definition set_camera :: "state \<Rightarrow> state" where
  "set_camera st =
     (let yaw_r = radians (cam_yaw st);
          pitch_r = radians (cam_pitch st);
          x = cam_dist st * cos pitch_r * sin yaw_r;
          y = cam_dist st * sin pitch_r;
          z = cam_dist st * cos pitch_r * cos yaw_r
      in emit [GlLoadIdentity, GluLookAt (x, y, z) (0, 0, 0) (0, 1, 0)] st)"

section \<open>Event handling: the body of \<open>for e in pygame.event.get()\<close>\<close>

text \<open>Lines 407 to 409: the three objects of the offscreen target are deleted.\<close>

definition release_target :: "state \<Rightarrow> state" where
  "release_target st =
     (let st1 = emit [GlDeleteFramebuffers [fbo st]] (st\<lparr>gl := glDeleteFramebuffers [fbo st] (gl st)\<rparr>);
          st2 = emit [GlDeleteTextures [scene_tex st1]] (st1\<lparr>gl := glDeleteTextures [scene_tex st1] (gl st1)\<rparr>);
          st3 = emit [GlDeleteRenderbuffers [rbo st2]] (st2\<lparr>gl := glDeleteRenderbuffers [rbo st2] (gl st2)\<rparr>)
      in st3)"

text \<open>\<open>fbo, scene_tex, rbo = create_fbo_tex(WIN_W, WIN_H)\<close>\<close>

definition new_target :: "driver \<Rightarrow> state \<Rightarrow> py_error + state" where
  "new_target drv st =
     (case create_fbo_tex drv (WIN_W st) (WIN_H st) (gl st) of
        Inl e \<Rightarrow> Inl e
      | Inr ((f, t, r), g) \<Rightarrow>
          Inr (emit [CreateFboTex (WIN_W st) (WIN_H st)]
                 (st\<lparr>fbo := f, scene_tex := t, rbo := r, gl := g\<rparr>)))"

fun handle_event :: "driver \<Rightarrow> state \<Rightarrow> event \<Rightarrow> py_error + state" where
  "handle_event drv st QUIT = Inr (st\<lparr>running := False\<rparr>)"
| "handle_event drv st (KEYDOWN k) =
     Inr (if k = K_ESCAPE \<or> k = K_q then st\<lparr>running := False\<rparr>
          else if k = K_r then st\<lparr>cam_dist := 18.0, cam_yaw := 35.0, cam_pitch := - 15.0\<rparr>
          else if k = K_g then st\<lparr>show_grid := \<not> show_grid st\<rparr>
          else if k = K_l then st\<lparr>enable_lensing := \<not> enable_lensing st\<rparr>
          else if k = K_PLUS \<or> k = K_EQUALS
            then st\<lparr>lens_strength := min 0.75 (lens_strength st + 0.02)\<rparr>
          else if k = K_MINUS then st\<lparr>lens_strength := max 0.02 (lens_strength st - 0.02)\<rparr>
          else if k = K_LEFTBRACKET then st\<lparr>lens_radius := max 0.15 (lens_radius st - 0.02)\<rparr>
          else if k = K_RIGHTBRACKET then st\<lparr>lens_radius := min 0.95 (lens_radius st + 0.02)\<rparr>
          else st)"
| "handle_event drv st (MOUSEBUTTONDOWN button pos) =
     Inr (if button = 1 then st\<lparr>dragging := True, last_mx := fst pos, last_my := snd pos\<rparr>
          else if button = 4 then st\<lparr>cam_dist := max 3.5 (cam_dist st - 1.0)\<rparr>
          else if button = 5 then st\<lparr>cam_dist := min 80.0 (cam_dist st + 1.0)\<rparr>
          else st)"
| "handle_event drv st (MOUSEBUTTONUP button pos) =
     Inr (if button = 1 then st\<lparr>dragging := False\<rparr> else st)"
| "handle_event drv st (MOUSEMOTION pos) =
     Inr (if dragging st
          then (let mx = fst pos; my = snd pos;
                    dx = mx - last_mx st;
                    dy = my - last_my st
                in st\<lparr>last_mx := mx, last_my := my,
                      cam_yaw := py_mod (cam_yaw st + of_int dx * 0.3) 360.0,
                      cam_pitch := max (- 85.0) (min 85.0 (cam_pitch st + of_int dy * 0.3))\<rparr>)
          else st)"
| "handle_event drv st (VIDEORESIZE w h) =
     (let st1 = st\<lparr>WIN_W := w, WIN_H := h\<rparr>;
          st2 = emit [PygameDisplaySetMode (WIN_W st1) (WIN_H st1),
                      GlViewport 0 0 (WIN_W st1) (WIN_H st1)] st1
      in case set_perspective (WIN_W st2) (WIN_H st2) st2 of
           Inl e \<Rightarrow> Inl e
         | Inr st3 \<Rightarrow> new_target drv (release_target st3))"
| "handle_event drv st (OTHER_EVENT n) = Inr st"

fun process_events :: "driver \<Rightarrow> state \<Rightarrow> event list \<Rightarrow> py_error + state" where
  "process_events drv st [] = Inr st"
| "process_events drv st (e # es) =
     (case handle_event drv st e of
        Inl err \<Rightarrow> Inl err
      | Inr st' \<Rightarrow> process_events drv st' es)"

section \<open>One frame and the main loop\<close>

text \<open>Phase 1, lines 413 to 422: the scene is drawn into the offscreen framebuffer.\<close>

definition scene_prologue :: "state \<Rightarrow> call list" where
  "scene_prologue st =
     [GlBindFramebuffer (fbo st), GlViewport 0 0 (WIN_W st) (WIN_H st), GlClear]"

definition scene_epilogue :: "state \<Rightarrow> call list" where
  "scene_epilogue st = [DrawGrid (show_grid st), DrawSceneObjects, GlBindFramebuffer 0]"

definition render_scene :: "state \<Rightarrow> py_error + state" where
  "render_scene st =
     (case set_perspective (WIN_W st) (WIN_H st) (emit (scene_prologue st) st) of
        Inl e \<Rightarrow> Inl e
      | Inr st1 \<Rightarrow> Inr (emit (scene_epilogue st) (set_camera st1)))"

text \<open>The uniforms that lines 442 to 445 hand to the shader.\<close>

definition post_uniforms :: "state \<Rightarrow> uniforms" where
  "post_uniforms st =
     \<lparr>uResolution = (of_int (WIN_W st), of_int (WIN_H st)),
      uStrength = (if enable_lensing st then lens_strength st else 0.0),
      uRadius = lens_radius st,
      uEHpx = of_int (event_horizon_radius_px st)\<rparr>"

text \<open>Phase 2, lines 425 to 468: the fullscreen quad through the lensing shader.\<close>

definition postprocess_calls :: "state \<Rightarrow> call list" where
  "postprocess_calls st =
     [GlViewport 0 0 (WIN_W st) (WIN_H st), GlClear, GlDisableDepthTest,
      GlUseProgram (post_prog st),
      GlGetUniformLocation (post_prog st) ''uScene'',
      GlGetUniformLocation (post_prog st) ''uResolution'',
      GlGetUniformLocation (post_prog st) ''uStrength'',
      GlGetUniformLocation (post_prog st) ''uRadius'',
      GlGetUniformLocation (post_prog st) ''uEHpx'',
      GlUniform1i ''uScene'' 0, GlActiveTexture 0, GlBindTexture (scene_tex st),
      GlUniform2f ''uResolution'' (fst (uResolution (post_uniforms st)))
                                  (snd (uResolution (post_uniforms st))),
      GlUniform1f ''uStrength'' (uStrength (post_uniforms st)),
      GlUniform1f ''uRadius'' (uRadius (post_uniforms st)),
      GlUniform1f ''uEHpx'' (uEHpx (post_uniforms st)),
      GlBindBuffer GL_ARRAY_BUFFER (fs_vbo st),
      GlBindBuffer GL_ELEMENT_ARRAY_BUFFER (fs_ebo st),
      GlGetAttribLocation (post_prog st) ''aPos'',
      GlGetAttribLocation (post_prog st) ''aUV'',
      GlEnableVertexAttribArray ''aPos'', GlEnableVertexAttribArray ''aUV'',
      GlVertexAttribPointer ''aPos'' 2 (4 * 4) 0,
      GlVertexAttribPointer ''aUV'' 2 (4 * 4) 8,
      GlDrawElements 6,
      GlDisableVertexAttribArray ''aPos'', GlDisableVertexAttribArray ''aUV'',
      GlBindBuffer GL_ARRAY_BUFFER 0, GlBindBuffer GL_ELEMENT_ARRAY_BUFFER 0,
      GlUseProgram 0, GlEnableDepthTest]"

text \<open>Phase 3, line 471, and the presentation, lines 477 and 478.\<close>

definition overlay_calls :: "state \<Rightarrow> call list" where
  "overlay_calls st =
     [DrawBlackHoleOverlay (WIN_W st) (WIN_H st) (event_horizon_radius_px st)]"

definition present_calls :: "call list" where
  "present_calls = [PygameDisplayFlip, ClockTick 60]"

text \<open>
  One iteration of \<open>while running\<close>, given the events that \<open>pygame.event.get()\<close>
  returns in it.
\<close>

definition frame :: "driver \<Rightarrow> state \<Rightarrow> event list \<Rightarrow> py_error + state" where
  "frame drv st evs =
     (case process_events drv (emit [PygameEventGet] st) evs of
        Inl e \<Rightarrow> Inl e
      | Inr st1 \<Rightarrow>
          (case render_scene st1 of
             Inl e \<Rightarrow> Inl e
           | Inr st2 \<Rightarrow>
               Inr (emit present_calls (emit (overlay_calls st2) (emit (postprocess_calls st2) st2)))))"

text \<open>
  The loop, run on the event batches of its first iterations: it stops when \<open>running\<close>
  is false, and the state after the last batch is what has been reached so far.
\<close>

fun main_loop :: "driver \<Rightarrow> state \<Rightarrow> event list list \<Rightarrow> py_error + state" where
  "main_loop drv st [] = Inr st"
| "main_loop drv st (evs # rest) =
     (if running st
      then (case frame drv st evs of
              Inl e \<Rightarrow> Inl e
            | Inr st' \<Rightarrow> main_loop drv st' rest)
      else Inr st)"

text \<open>The module's globals and the part of \<open>main()\<close> before the loop.\<close>

definition globals :: state where
  "globals =
     \<lparr>WIN_W = 1280, WIN_H = 800, cam_dist = 18.0, cam_yaw = 35.0, cam_pitch = - 15.0,
      show_grid = True, enable_lensing = True, lens_strength = 0.16, lens_radius = 0.55,
      event_horizon_radius_px = 70,
      fbo = 0, scene_tex = 0, rbo = 0, fs_vbo = 0, fs_ebo = 0, post_prog = 0,
      dragging = False, last_mx = 0, last_my = 0, running = True,
      gl = gl_initial, trace = []\<rparr>"

definition main_init :: "driver \<Rightarrow> py_error + state" where
  "main_init drv =
     (let st0 = emit [PygameInit, PygameSetCaption ''Blackhole'',
                      PygameDisplaySetMode (WIN_W globals) (WIN_H globals),
                      GlViewport 0 0 (WIN_W globals) (WIN_H globals),
                      GlEnableDepthTest, GlClearColor 0.02 0.05 0.10 1.0] globals
      in case set_perspective (WIN_W st0) (WIN_H st0) st0 of
           Inl e \<Rightarrow> Inl e
         | Inr st1 \<Rightarrow>
             (case new_target drv st1 of
                Inl e \<Rightarrow> Inl e
              | Inr st2 \<Rightarrow>
                  (case create_fs_quad (gl st2) of
                     ((vbo, ebo), g) \<Rightarrow>
                       (let st3 = emit [CreateFsQuad] (st2\<lparr>fs_vbo := vbo, fs_ebo := ebo, gl := g\<rparr>)
                        in case link_program drv POST_VS POST_FS (gl st3) of
                             Inl e \<Rightarrow> Inl e
                           | Inr (pid, g') \<Rightarrow>
                               Inr (emit [LinkProgram POST_VS POST_FS]
                                      (st3\<lparr>post_prog := pid, gl := g',
                                           dragging := False, last_mx := 0, last_my := 0,
                                           running := True\<rparr>))))))"

text \<open>Lines 481 to 486, after the loop: the objects are deleted and pygame is shut down.\<close>

definition cleanup :: "state \<Rightarrow> state" where
  "cleanup st =
     emit [GlDeleteFramebuffers [fbo st], GlDeleteTextures [scene_tex st],
           GlDeleteRenderbuffers [rbo st], GlDeleteBuffers [fs_vbo st],
           GlDeleteBuffers [fs_ebo st], PygameQuit]
       (st\<lparr>gl := glDeleteBuffers [fs_ebo st] (glDeleteBuffers [fs_vbo st]
                 (glDeleteRenderbuffers [rbo st] (glDeleteTextures [scene_tex st]
                    (glDeleteFramebuffers [fbo st] (gl st)))))\<rparr>)"


section \<open>Predicates and concrete inputs\<close>

text \<open>The bounds on camera pitch and camera distance.\<close>

definition camera_in_range :: "state \<Rightarrow> bool" where
  "camera_in_range st \<longleftrightarrow>
     - 85 \<le> cam_pitch st \<and> cam_pitch st \<le> 85 \<and> 3.5 \<le> cam_dist st \<and> cam_dist st \<le> 80"

text \<open>The bounds on lens strength and lens radius.\<close>

definition lens_in_range :: "state \<Rightarrow> bool" where
  "lens_in_range st \<longleftrightarrow>
     0.02 \<le> lens_strength st \<and> lens_strength st \<le> 0.75 \<and>
     0.15 \<le> lens_radius st \<and> lens_radius st \<le> 0.95"

text \<open>A driver that compiles and links everything and completes every framebuffer
  whose attachments have one positive size.\<close>

definition ok_driver :: driver where
  "ok_driver = \<lparr>glsl_compile = (\<lambda>ty src. (True, [])), glsl_link = (\<lambda>ss. (True, [])),
     framebuffer_complete = (\<lambda>t r. t = r \<and> 0 < fst t \<and> 0 < snd t)\<rparr>"

text \<open>All calls of phase 1, lines 413 to 422, with \<open>set_perspective\<close> and \<open>set_camera\<close>
  written out.\<close>

definition scene_calls :: "state \<Rightarrow> call list" where
  "scene_calls st =
     scene_prologue st @
     [GlMatrixMode GL_PROJECTION, GlLoadIdentity,
      GluPerspective FOV (of_int (WIN_W st) / of_int (WIN_H st)) NEAR FAR,
      GlMatrixMode GL_MODELVIEW,
      GlLoadIdentity,
      GluLookAt (cam_dist st * cos (radians (cam_pitch st)) * sin (radians (cam_yaw st)),
                 cam_dist st * sin (radians (cam_pitch st)),
                 cam_dist st * cos (radians (cam_pitch st)) * cos (radians (cam_yaw st)))
                (0, 0, 0) (0, 1, 0)] @
     scene_epilogue st"

text \<open>What the linker sees in \<open>link_program(vs_src, fs_src)\<close>.\<close>

definition link_input :: "string \<Rightarrow> string \<Rightarrow> (shader_type \<times> string) list" where
  "link_input vs_src fs_src = [(GL_VERTEX_SHADER, vs_src), (GL_FRAGMENT_SHADER, fs_src)]"

text \<open>The offscreen target has the size of the window: the colour texture and the
  depth-stencil renderbuffer that the framebuffer object holds.\<close>

definition target_matches_window :: "state \<Rightarrow> bool" where
  "target_matches_window st \<longleftrightarrow>
     textures (gl st) (scene_tex st) = Some (WIN_W st, WIN_H st) \<and>
     renderbuffers (gl st) (rbo st) = Some (WIN_W st, WIN_H st) \<and>
     framebuffers (gl st) (fbo st) = Some (scene_tex st, rbo st)"

text \<open>The driver lets \<open>main()\<close> reach its loop.\<close>

definition driver_ok :: "driver \<Rightarrow> bool" where
  "driver_ok drv \<longleftrightarrow>
     framebuffer_complete drv (1280, 800) (1280, 800) \<and>
     fst (glsl_compile drv GL_VERTEX_SHADER POST_VS) \<and>
     fst (glsl_compile drv GL_FRAGMENT_SHADER POST_FS) \<and>
     fst (glsl_link drv (link_input POST_VS POST_FS))"

text \<open>The conversion as the specification words it: a distance and two angles in
  radians give a position.\<close>

definition spherical_to_cartesian :: "real \<Rightarrow> real \<Rightarrow> real \<Rightarrow> vec3" where
  "spherical_to_cartesian d pitch yaw =
     (d * cos pitch * sin yaw, d * sin pitch, d * cos pitch * cos yaw)"

text \<open>The squared length of a position.\<close>

definition norm2 :: "vec3 \<Rightarrow> real" where
  "norm2 v = (case v of (x, y, z) \<Rightarrow> x * x + y * y + z * z)"

text \<open>A scene texture for concrete inputs.\<close>

definition ex_scene :: "vec2 \<Rightarrow> vec4" where
  "ex_scene uv = (fst uv, snd uv, 0.5, 1)"

text \<open>Between two states, only camera yaw, pitch, distance, the lensing flag, the
  lensing strength and the lensing radius may differ.\<close>

definition only_camera_lens_changed :: "state \<Rightarrow> state \<Rightarrow> bool" where
  "only_camera_lens_changed st st' \<longleftrightarrow>
     st' = st\<lparr>cam_yaw := cam_yaw st', cam_pitch := cam_pitch st', cam_dist := cam_dist st',
              enable_lensing := enable_lensing st', lens_strength := lens_strength st',
              lens_radius := lens_radius st'\<rparr>"

text \<open>Keyboard and mouse events.\<close>

fun is_input_event :: "event \<Rightarrow> bool" where
  "is_input_event (KEYDOWN k) = True"
| "is_input_event (MOUSEBUTTONDOWN button pos) = True"
| "is_input_event (MOUSEBUTTONUP button pos) = True"
| "is_input_event (MOUSEMOTION pos) = True"
| "is_input_event e = False"

text \<open>What a keyboard or mouse event may change: the camera and lens globals, the grid flag,
  and the loop variables \<open>running\<close>, \<open>dragging\<close>, \<open>last_mx\<close>, \<open>last_my\<close>.\<close>

definition input_effect :: "state \<Rightarrow> state \<Rightarrow> bool" where
  "input_effect st st' \<longleftrightarrow>
     st' = st\<lparr>cam_yaw := cam_yaw st', cam_pitch := cam_pitch st', cam_dist := cam_dist st',
              show_grid := show_grid st',
              enable_lensing := enable_lensing st', lens_strength := lens_strength st',
              lens_radius := lens_radius st',
              dragging := dragging st', last_mx := last_mx st', last_my := last_my st',
              running := running st'\<rparr>"

text \<open>The uniforms of the first frame: a 1280 by 800 window and the initial lens values.\<close>

definition ex_uniforms :: uniforms where
  "ex_uniforms = \<lparr>uResolution = (1280, 800), uStrength = 0.16, uRadius = 0.55, uEHpx = 70\<rparr>"

text \<open>The calls that the event handlers make (all of them in the resize handler).\<close>

fun is_handler_call :: "call \<Rightarrow> bool" where
  "is_handler_call (PygameDisplaySetMode w h) = True"
| "is_handler_call (GlViewport x y w h) = True"
| "is_handler_call (GlMatrixMode m) = True"
| "is_handler_call GlLoadIdentity = True"
| "is_handler_call (GluPerspective a b c d) = True"
| "is_handler_call (GlDeleteFramebuffers ns) = True"
| "is_handler_call (GlDeleteTextures ns) = True"
| "is_handler_call (GlDeleteRenderbuffers ns) = True"
| "is_handler_call (CreateFboTex w h) = True"
| "is_handler_call c = False"

text \<open>The window height is not 0, so that \<open>set_perspective\<close> does not raise.\<close>

definition height_nonzero :: "state \<Rightarrow> bool" where
  "height_nonzero st \<longleftrightarrow> WIN_H st \<noteq> 0"

text \<open>The OpenGL state after lines 407 to 409 have deleted the offscreen target.\<close>

definition released :: "state \<Rightarrow> gl_state" where
  "released st =
     glDeleteRenderbuffers [rbo st] (glDeleteTextures [scene_tex st]
       (glDeleteFramebuffers [fbo st] (gl st)))"

text \<open>A driver that compiles only non-empty vertex shaders.\<close>

definition bad_compile_driver :: driver where
  "bad_compile_driver =
    \<lparr>glsl_compile = (\<lambda>ty src. (ty = GL_VERTEX_SHADER \<and> src \<noteq> [], ''0:1: syntax error'')),
     glsl_link = (\<lambda>ss. (True, [])),
     framebuffer_complete = (\<lambda>t r. t = r \<and> 0 < fst t \<and> 0 < snd t)\<rparr>"

text \<open>A driver that compiles every shader and links none.\<close>

definition bad_link_driver :: driver where
  "bad_link_driver = \<lparr>glsl_compile = (\<lambda>ty src. (True, [])),
     glsl_link = (\<lambda>ss. (False, ''varying vUV not written'')),
     framebuffer_complete = (\<lambda>t r. t = r \<and> 0 < fst t \<and> 0 < snd t)\<rparr>"

text \<open>The initial globals after key L.\<close>

definition lensing_off_state :: state where
  "lensing_off_state = globals\<lparr>enable_lensing := False\<rparr>"


section \<open>Properties\<close>

subsection \<open>Results of the helper functions\<close>

lemma set_perspective_Inr:
  "set_perspective w h st = Inr st' \<longleftrightarrow>
     h \<noteq> 0 \<and> st' = emit [GlMatrixMode GL_PROJECTION, GlLoadIdentity,
                      GluPerspective FOV (of_int w / of_int h) NEAR FAR,
                      GlMatrixMode GL_MODELVIEW] st"
  by (auto simp: set_perspective_def)

lemma create_fbo_tex_Inr:
  assumes "create_fbo_tex drv w h g = Inr ((f, t, r), g')"
  shows "textures g' t = Some (w, h)" "renderbuffers g' r = Some (w, h)"
        "framebuffers g' f = Some (t, r)" "framebuffer_complete drv (w, h) (w, h)"
  using assms
  by (auto simp: create_fbo_tex_def glGen_def glTexImage2D_def glRenderbufferStorage_def
      glBindFramebuffer_new_def glFramebufferTexture2D_def glFramebufferRenderbuffer_def
      glCheckFramebufferStatus_COMPLETE_def Let_def split: if_splits)

lemma create_fbo_tex_complete:
  "framebuffer_complete drv (w, h) (w, h) \<Longrightarrow> \<exists>r. create_fbo_tex drv w h g = Inr r"
  by (simp add: create_fbo_tex_def glGen_def glTexImage2D_def glRenderbufferStorage_def
      glBindFramebuffer_new_def glFramebufferTexture2D_def glFramebufferRenderbuffer_def
      glCheckFramebufferStatus_COMPLETE_def Let_def)

lemma new_target_Inr:
  assumes "new_target drv st = Inr st'"
  shows "\<exists>f t r g. create_fbo_tex drv (WIN_W st) (WIN_H st) (gl st) = Inr ((f, t, r), g) \<and>
           st' = st\<lparr>fbo := f, scene_tex := t, rbo := r, gl := g,
                    trace := trace st @ [CreateFboTex (WIN_W st) (WIN_H st)]\<rparr>"
  using assms by (auto simp: new_target_def emit_def split: sum.splits)

lemma release_target_eq:
  "release_target st =
     st\<lparr>gl := glDeleteRenderbuffers [rbo st] (glDeleteTextures [scene_tex st]
                 (glDeleteFramebuffers [fbo st] (gl st))),
        trace := trace st @ [GlDeleteFramebuffers [fbo st], GlDeleteTextures [scene_tex st],
                             GlDeleteRenderbuffers [rbo st]]\<rparr>"
  by (simp add: release_target_def emit_def Let_def)

subsection \<open>The event handlers keep the camera and lens bounds\<close>

lemma resize_Inr:
  assumes "handle_event drv st (VIDEORESIZE w h) = Inr st'"
  shows "h \<noteq> 0"
    and "\<exists>f t r g. create_fbo_tex drv w h
            (glDeleteRenderbuffers [rbo st] (glDeleteTextures [scene_tex st]
               (glDeleteFramebuffers [fbo st] (gl st)))) = Inr ((f, t, r), g) \<and>
          st' = st\<lparr>WIN_W := w, WIN_H := h, fbo := f, scene_tex := t, rbo := r, gl := g,
                   trace := trace st @
                     [PygameDisplaySetMode w h, GlViewport 0 0 w h,
                      GlMatrixMode GL_PROJECTION, GlLoadIdentity,
                      GluPerspective FOV (of_int w / of_int h) NEAR FAR,
                      GlMatrixMode GL_MODELVIEW,
                      GlDeleteFramebuffers [fbo st], GlDeleteTextures [scene_tex st],
                      GlDeleteRenderbuffers [rbo st], CreateFboTex w h]\<rparr>"
proof -
  let ?st2 = "emit [PygameDisplaySetMode w h, GlViewport 0 0 w h] (st\<lparr>WIN_W := w, WIN_H := h\<rparr>)"
  from assms obtain st3 where p: "set_perspective w h ?st2 = Inr st3"
    and n: "new_target drv (release_target st3) = Inr st'"
    by (auto simp: Let_def emit_def split: sum.splits)
  from p show "h \<noteq> 0" by (simp add: set_perspective_Inr)
  from p have st3: "st3 = emit [GlMatrixMode GL_PROJECTION, GlLoadIdentity,
                      GluPerspective FOV (of_int w / of_int h) NEAR FAR,
                      GlMatrixMode GL_MODELVIEW] ?st2"
    by (simp add: set_perspective_Inr)
  from new_target_Inr [OF n] show "\<exists>f t r g. create_fbo_tex drv w h
            (glDeleteRenderbuffers [rbo st] (glDeleteTextures [scene_tex st]
               (glDeleteFramebuffers [fbo st] (gl st)))) = Inr ((f, t, r), g) \<and>
          st' = st\<lparr>WIN_W := w, WIN_H := h, fbo := f, scene_tex := t, rbo := r, gl := g,
                   trace := trace st @
                     [PygameDisplaySetMode w h, GlViewport 0 0 w h,
                      GlMatrixMode GL_PROJECTION, GlLoadIdentity,
                      GluPerspective FOV (of_int w / of_int h) NEAR FAR,
                      GlMatrixMode GL_MODELVIEW,
                      GlDeleteFramebuffers [fbo st], GlDeleteTextures [scene_tex st],
                      GlDeleteRenderbuffers [rbo st], CreateFboTex w h]\<rparr>"
    by (simp add: st3 release_target_eq emit_def)
qed

lemma handle_event_camera:
  assumes "handle_event drv st e = Inr st'" and "camera_in_range st"
  shows "camera_in_range st'"
proof (cases e)
  case (VIDEORESIZE w h)
  with assms(1) have "cam_pitch st' = cam_pitch st \<and> cam_dist st' = cam_dist st"
    using resize_Inr(2) [of drv st w h st'] by auto
  with assms(2) show ?thesis by (simp add: camera_in_range_def)
qed (use assms in \<open>auto simp: camera_in_range_def Let_def min_def max_def split: if_splits\<close>)

lemma handle_event_lens:
  assumes "handle_event drv st e = Inr st'" and "lens_in_range st"
  shows "lens_in_range st'"
proof (cases e)
  case (VIDEORESIZE w h)
  with assms(1) have "lens_strength st' = lens_strength st \<and> lens_radius st' = lens_radius st"
    using resize_Inr(2) [of drv st w h st'] by auto
  with assms(2) show ?thesis by (simp add: lens_in_range_def)
qed (use assms in \<open>auto simp: lens_in_range_def Let_def min_def max_def split: if_splits\<close>)

subsection \<open>One frame, and invariants of the loop\<close>

lemma set_camera_eq:
  "set_camera st = st\<lparr>trace := trace st @
     [GlLoadIdentity,
      GluLookAt (cam_dist st * cos (radians (cam_pitch st)) * sin (radians (cam_yaw st)),
                 cam_dist st * sin (radians (cam_pitch st)),
                 cam_dist st * cos (radians (cam_pitch st)) * cos (radians (cam_yaw st)))
                (0, 0, 0) (0, 1, 0)]\<rparr>"
  by (simp add: set_camera_def emit_def Let_def)

lemma render_scene_Inr:
  "render_scene st = Inr st' \<longleftrightarrow>
     WIN_H st \<noteq> 0 \<and> st' = st\<lparr>trace := trace st @ scene_calls st\<rparr>"
  by (auto simp: render_scene_def set_perspective_def set_camera_eq emit_def scene_calls_def
      scene_prologue_def scene_epilogue_def)

lemma render_scene_Inl:
  "render_scene st = Inl e \<longleftrightarrow> WIN_H st = 0 \<and> e = ZeroDivisionError"
  by (auto simp: render_scene_def set_perspective_def emit_def)

lemma calls_trace_irrelevant:
  "scene_calls (st\<lparr>trace := t\<rparr>) = scene_calls st"
  "postprocess_calls (st\<lparr>trace := t\<rparr>) = postprocess_calls st"
  "overlay_calls (st\<lparr>trace := t\<rparr>) = overlay_calls st"
  by (simp_all add: scene_calls_def scene_prologue_def scene_epilogue_def
      postprocess_calls_def post_uniforms_def overlay_calls_def)

lemma frame_Inr:
  "frame drv st evs = Inr st' \<longleftrightarrow>
     (\<exists>st1. process_events drv (emit [PygameEventGet] st) evs = Inr st1 \<and> WIN_H st1 \<noteq> 0 \<and>
        st' = st1\<lparr>trace := trace st1 @ scene_calls st1 @ postprocess_calls st1 @
                      overlay_calls st1 @ present_calls\<rparr>)"
  by (auto simp: frame_def render_scene_Inr render_scene_Inl emit_def calls_trace_irrelevant
      split: sum.splits)

lemma process_events_invariant:
  assumes step: "\<And>st e st'. handle_event drv st e = Inr st' \<Longrightarrow> P st \<Longrightarrow> P st'"
    and "process_events drv st evs = Inr st'" and "P st"
  shows "P st'"
  using assms(2,3)
proof (induction evs arbitrary: st)
  case Nil
  then show ?case by simp
next
  case (Cons e es)
  then show ?case by (auto split: sum.splits dest: step)
qed

lemma frame_invariant:
  assumes step: "\<And>st e st'. handle_event drv st e = Inr st' \<Longrightarrow> P st \<Longrightarrow> P st'"
    and tr: "\<And>st f. P (st\<lparr>trace := f\<rparr>) = P st"
    and "frame drv st evs = Inr st'" and "P st"
  shows "P st'"
proof -
  from assms(3) obtain st1 where
    1: "process_events drv (emit [PygameEventGet] st) evs = Inr st1"
    and 2: "st' = st1\<lparr>trace := trace st1 @ scene_calls st1 @ postprocess_calls st1 @
                      overlay_calls st1 @ present_calls\<rparr>"
    by (auto simp: frame_Inr)
  have "P (emit [PygameEventGet] st)" using \<open>P st\<close> by (simp add: emit_def tr)
  from process_events_invariant [of drv P, OF step 1 this] have "P st1" .
  then show ?thesis by (simp add: 2 tr)
qed

lemma main_loop_invariant:
  assumes step: "\<And>st e st'. handle_event drv st e = Inr st' \<Longrightarrow> P st \<Longrightarrow> P st'"
    and tr: "\<And>st f. P (st\<lparr>trace := f\<rparr>) = P st"
    and "main_loop drv st evss = Inr st'" and "P st"
  shows "P st'"
  using assms(3,4)
proof (induction evss arbitrary: st)
  case Nil
  then show ?case by simp
next
  case (Cons evs rest)
  show ?case
  proof (cases "running st")
    case True
    with Cons.prems(1) obtain st1 where f: "frame drv st evs = Inr st1"
      and l: "main_loop drv st1 rest = Inr st'"
      by (auto split: sum.splits)
    from frame_invariant [of drv P, OF step tr f Cons.prems(2)] have "P st1" .
    with l show ?thesis by (rule Cons.IH)
  next
    case False
    with Cons.prems show ?thesis by simp
  qed
qed

subsection \<open>Shader compilation and linking\<close>

lemma compile_shader_eq:
  "compile_shader drv src ty g =
     (if fst (glsl_compile drv ty src)
      then Inr (next_name g,
             g\<lparr>next_name := Suc (next_name g),
               shaders := (shaders g)(next_name g \<mapsto>
                 \<lparr>sh_type = ty, sh_source = src, sh_compile_status = True,
                  sh_info_log = snd (glsl_compile drv ty src), sh_delete_flag = False\<rparr>)\<rparr>)
      else Inl (RuntimeError (''Shader compile error:'' @ [CHR 0x0A] @ snd (glsl_compile drv ty src))))"
  by (cases "glsl_compile drv ty src")
     (simp add: compile_shader_def glCreateShader_def glShaderSource_def glCompileShader_def
      glGetShaderiv_COMPILE_STATUS_def glGetShaderInfoLog_def Let_def)

lemma link_program_eq:
  "link_program drv vs_src fs_src g =
     (if \<not> fst (glsl_compile drv GL_VERTEX_SHADER vs_src)
      then Inl (RuntimeError (''Shader compile error:'' @ [CHR 0x0A] @
                  snd (glsl_compile drv GL_VERTEX_SHADER vs_src)))
      else if \<not> fst (glsl_compile drv GL_FRAGMENT_SHADER fs_src)
      then Inl (RuntimeError (''Shader compile error:'' @ [CHR 0x0A] @
                  snd (glsl_compile drv GL_FRAGMENT_SHADER fs_src)))
      else if \<not> fst (glsl_link drv (link_input vs_src fs_src))
      then Inl (RuntimeError (''Program link error:'' @ [CHR 0x0A] @
                  snd (glsl_link drv (link_input vs_src fs_src))))
      else Inr (Suc (Suc (next_name g)),
             g\<lparr>next_name := Suc (Suc (Suc (next_name g))),
               shaders := (shaders g)
                 (next_name g \<mapsto>
                    \<lparr>sh_type = GL_VERTEX_SHADER, sh_source = vs_src, sh_compile_status = True,
                     sh_info_log = snd (glsl_compile drv GL_VERTEX_SHADER vs_src),
                     sh_delete_flag = True\<rparr>,
                  Suc (next_name g) \<mapsto>
                    \<lparr>sh_type = GL_FRAGMENT_SHADER, sh_source = fs_src, sh_compile_status = True,
                     sh_info_log = snd (glsl_compile drv GL_FRAGMENT_SHADER fs_src),
                     sh_delete_flag = True\<rparr>),
               programs := (programs g)(Suc (Suc (next_name g)) \<mapsto>
                 \<lparr>pr_attached = [next_name g, Suc (next_name g)], pr_link_status = True,
                  pr_info_log = snd (glsl_link drv (link_input vs_src fs_src))\<rparr>)\<rparr>))"
  by (cases "glsl_link drv (link_input vs_src fs_src)")
     (auto simp: link_program_def compile_shader_eq glCreateProgram_def glAttachShader_def
      glLinkProgram_def glGetProgramiv_LINK_STATUS_def glGetProgramInfoLog_def
      glDeleteShader_def attached_sources_def link_input_def Let_def fun_upd_twist)

subsection \<open>Start-up and the offscreen target\<close>

lemma create_fbo_tex_eq:
  "create_fbo_tex drv w h g =
     (if framebuffer_complete drv (w, h) (w, h)
      then Inr ((Suc (Suc (next_name g)), next_name g, Suc (next_name g)),
             g\<lparr>next_name := Suc (Suc (Suc (next_name g))),
               textures := (textures g)(next_name g \<mapsto> (w, h)),
               renderbuffers := (renderbuffers g)(Suc (next_name g) \<mapsto> (w, h)),
               framebuffers := (framebuffers g)(Suc (Suc (next_name g)) \<mapsto>
                                  (next_name g, Suc (next_name g)))\<rparr>)
      else Inl (RuntimeError ''FBO incomplete''))"
  by (simp add: create_fbo_tex_def glGen_def glTexImage2D_def glRenderbufferStorage_def
      glBindFramebuffer_new_def glFramebufferTexture2D_def glFramebufferRenderbuffer_def
      glCheckFramebufferStatus_COMPLETE_def Let_def)

lemma create_fs_quad_eq:
  "create_fs_quad g =
     ((next_name g, Suc (next_name g)),
      g\<lparr>next_name := Suc (Suc (next_name g)),
        buffers := (buffers g)(next_name g \<mapsto> 64, Suc (next_name g) \<mapsto> 24)\<rparr>)"
  by (simp add: create_fs_quad_def glGen_def glBufferData_def Let_def)

lemma main_init_Inr:
  assumes "main_init drv = Inr s0"
  shows "driver_ok drv"
    and "cam_dist s0 = 18" "cam_pitch s0 = - 15" "cam_yaw s0 = 35"
    and "lens_strength s0 = 0.16" "lens_radius s0 = 0.55"
    and "WIN_W s0 = 1280" "WIN_H s0 = 800" "running s0" "event_horizon_radius_px s0 = 70"
    and "target_matches_window s0"
    and "\<exists>pr. programs (gl s0) (post_prog s0) = Some pr \<and> pr_link_status pr"
  using assms
  by (auto simp: main_init_def new_target_def create_fbo_tex_eq create_fs_quad_eq
      link_program_eq set_perspective_def emit_def globals_def gl_initial_def Let_def
      driver_ok_def target_matches_window_def
      split: if_splits)

lemma main_init_ok:
  assumes "driver_ok drv"
  shows "\<exists>s0. main_init drv = Inr s0"
  using assms
  by (simp add: main_init_def new_target_def create_fbo_tex_eq create_fs_quad_eq
      link_program_eq set_perspective_def emit_def globals_def gl_initial_def Let_def
      driver_ok_def)

lemma main_init_Inl:
  assumes "\<not> driver_ok drv"
  shows "\<exists>e. main_init drv = Inl e"
  using assms
  by (auto simp: main_init_def new_target_def create_fbo_tex_eq create_fs_quad_eq
      link_program_eq set_perspective_def emit_def globals_def gl_initial_def Let_def
      driver_ok_def)

lemma handle_event_target:
  assumes "handle_event drv st e = Inr st'" and "target_matches_window st"
  shows "target_matches_window st'"
proof (cases e)
  case (VIDEORESIZE w h)
  with assms(1) show ?thesis
    using resize_Inr(2) [of drv st w h st']
    by (auto simp: target_matches_window_def create_fbo_tex_eq split: if_splits)
qed (use assms in \<open>auto simp: target_matches_window_def Let_def split: if_splits\<close>)

subsection \<open>Camera and lens bounds in reachable states\<close>

lemma camera_trace: "camera_in_range (st\<lparr>trace := f\<rparr>) = camera_in_range st"
  by (simp add: camera_in_range_def)

lemma lens_trace: "lens_in_range (st\<lparr>trace := f\<rparr>) = lens_in_range st"
  by (simp add: lens_in_range_def)

lemma ok_driver_ok: "driver_ok ok_driver"
  by (simp add: driver_ok_def ok_driver_def)

lemma main_loop_camera:
  assumes "main_loop drv st evss = Inr st'" and "camera_in_range st"
  shows "camera_in_range st'"
proof (rule main_loop_invariant [where P = camera_in_range and drv = drv])
  fix st e st'
  assume "handle_event drv st e = Inr st'" and "camera_in_range st"
  then show "camera_in_range st'" by (rule handle_event_camera)
next
  fix st f
  show "camera_in_range (st\<lparr>trace := f\<rparr>) = camera_in_range st" by (rule camera_trace)
qed fact+

lemma process_events_camera:
  assumes "process_events drv st evs = Inr st'" and "camera_in_range st"
  shows "camera_in_range st'"
proof (rule process_events_invariant [where P = camera_in_range and drv = drv])
  fix st e st'
  assume "handle_event drv st e = Inr st'" and "camera_in_range st"
  then show "camera_in_range st'" by (rule handle_event_camera)
qed fact+

lemma main_loop_lens:
  assumes "main_loop drv st evss = Inr st'" and "lens_in_range st"
  shows "lens_in_range st'"
proof (rule main_loop_invariant [where P = lens_in_range and drv = drv])
  fix st e st'
  assume "handle_event drv st e = Inr st'" and "lens_in_range st"
  then show "lens_in_range st'" by (rule handle_event_lens)
next
  fix st f
  show "lens_in_range (st\<lparr>trace := f\<rparr>) = lens_in_range st" by (rule lens_trace)
qed fact+

lemma process_events_lens:
  assumes "process_events drv st evs = Inr st'" and "lens_in_range st"
  shows "lens_in_range st'"
proof (rule process_events_invariant [where P = lens_in_range and drv = drv])
  fix st e st'
  assume "handle_event drv st e = Inr st'" and "lens_in_range st"
  then show "lens_in_range st'" by (rule handle_event_lens)
qed fact+

lemma main_loop_single: "running st \<Longrightarrow> main_loop drv st [evs] = frame drv st evs"
  by (simp split: sum.splits)

lemma main_loop_singleI:
  assumes "running st"
    and "process_events drv (emit [PygameEventGet] st) evs = Inr st1"
    and "WIN_H st1 \<noteq> 0"
  shows "main_loop drv st [evs] =
     Inr (st1\<lparr>trace := trace st1 @ scene_calls st1 @ postprocess_calls st1 @
                      overlay_calls st1 @ present_calls\<rparr>)"
proof -
  have "frame drv st evs =
     Inr (st1\<lparr>trace := trace st1 @ scene_calls st1 @ postprocess_calls st1 @
                      overlay_calls st1 @ present_calls\<rparr>)"
    unfolding frame_Inr using assms(2,3) by blast
  with assms(1) show ?thesis by (simp add: main_loop_single)
qed

text \<open>
  Claim C3. In every state reached from the start of \<open>main()\<close> by any number of loop
  iterations and any further events of the current iteration, the camera pitch is in
  [-85, 85] and the camera distance in [3.5, 80]; wheel events clamp the distance with
  \<open>max(3.5, ...)\<close> and \<open>min(80.0, ...)\<close>, a drag motion clamps the pitch with
  \<open>max(-85.0, min(85.0, ...))\<close>.
\<close>

theorem camera_clamped:
  assumes "main_init drv = Inr s0"
    and "main_loop drv s0 evss = Inr s"
    and "process_events drv s evs = Inr s'"
  shows "- 85 \<le> cam_pitch s' \<and> cam_pitch s' \<le> 85 \<and> 3.5 \<le> cam_dist s' \<and> cam_dist s' \<le> 80
    \<and> handle_event drv s' (MOUSEBUTTONDOWN 4 pos) = Inr (s'\<lparr>cam_dist := max 3.5 (cam_dist s' - 1)\<rparr>)
    \<and> handle_event drv s' (MOUSEBUTTONDOWN 5 pos) = Inr (s'\<lparr>cam_dist := min 80 (cam_dist s' + 1)\<rparr>)
    \<and> (dragging s' \<longrightarrow>
         (\<exists>t. handle_event drv s' (MOUSEMOTION pos) = Inr t \<and>
              cam_pitch t = max (- 85) (min 85 (cam_pitch s' + of_int (snd pos - last_my s') * 0.3))))"
proof -
  have "camera_in_range s0"
    using main_init_Inr(2,3) [OF assms(1)] by (simp add: camera_in_range_def)
  with assms(2) have "camera_in_range s" by (rule main_loop_camera)
  with assms(3) have "camera_in_range s'" by (rule process_events_camera)
  then show ?thesis by (simp add: camera_in_range_def Let_def)
qed

theorem camera_clamped_witness:
  "\<exists>s0 s s'. main_init ok_driver = Inr s0
     \<and> main_loop ok_driver s0 [[MOUSEBUTTONDOWN 5 (0, 0)]] = Inr s
     \<and> process_events ok_driver s [MOUSEBUTTONDOWN 1 (10, 10), MOUSEMOTION (10, 400)] = Inr s'
     \<and> dragging s' \<and> cam_dist s' = 19 \<and> cam_pitch s' = 85
     \<and> - 85 \<le> cam_pitch s' \<and> cam_pitch s' \<le> 85 \<and> 3.5 \<le> cam_dist s' \<and> cam_dist s' \<le> 80
     \<and> (\<exists>t. handle_event ok_driver s' (MOUSEMOTION (10, 0)) = Inr t \<and>
              cam_pitch t = max (- 85) (min 85 (cam_pitch s' + of_int (snd (10, 0) - last_my s') * 0.3)))"
proof -
  obtain s0 where i: "main_init ok_driver = Inr s0"
    using main_init_ok [OF ok_driver_ok] by blast
  note f = main_init_Inr [OF i]
  let ?s1 = "(emit [PygameEventGet] s0)\<lparr>cam_dist := min 80 (cam_dist s0 + 1)\<rparr>"
  have pe: "process_events ok_driver (emit [PygameEventGet] s0) [MOUSEBUTTONDOWN 5 (0, 0)] = Inr ?s1"
    by (simp add: emit_def)
  have "WIN_H ?s1 \<noteq> 0" using f by (simp add: emit_def)
  from main_loop_singleI [OF \<open>running s0\<close> pe this]
  obtain s where l: "main_loop ok_driver s0 [[MOUSEBUTTONDOWN 5 (0, 0)]] = Inr s"
    and s: "cam_dist s = 19" "cam_pitch s = - 15"
    using f by (simp add: emit_def)
  obtain s' where p: "process_events ok_driver s [MOUSEBUTTONDOWN 1 (10, 10), MOUSEMOTION (10, 400)] = Inr s'"
    and s': "dragging s'" "cam_dist s' = 19" "cam_pitch s' = 85"
    using s by (simp add: Let_def)
  from camera_clamped [OF i l p, of "(10, 0)"] i l p s' show ?thesis
    by (intro exI [of _ s0] exI [of _ s] exI [of _ s']) simp
qed

text \<open>
  Claim C4. In every such state the lens strength is in [0.02, 0.75] and the lens radius
  in [0.15, 0.95]; the keys +, =, -, [ and ] apply the clamped steps of 0.02.
\<close>

theorem lens_clamped:
  assumes "main_init drv = Inr s0"
    and "main_loop drv s0 evss = Inr s"
    and "process_events drv s evs = Inr s'"
  shows "0.02 \<le> lens_strength s' \<and> lens_strength s' \<le> 0.75
    \<and> 0.15 \<le> lens_radius s' \<and> lens_radius s' \<le> 0.95
    \<and> handle_event drv s' (KEYDOWN K_PLUS) = Inr (s'\<lparr>lens_strength := min 0.75 (lens_strength s' + 0.02)\<rparr>)
    \<and> handle_event drv s' (KEYDOWN K_EQUALS) = Inr (s'\<lparr>lens_strength := min 0.75 (lens_strength s' + 0.02)\<rparr>)
    \<and> handle_event drv s' (KEYDOWN K_MINUS) = Inr (s'\<lparr>lens_strength := max 0.02 (lens_strength s' - 0.02)\<rparr>)
    \<and> handle_event drv s' (KEYDOWN K_LEFTBRACKET) = Inr (s'\<lparr>lens_radius := max 0.15 (lens_radius s' - 0.02)\<rparr>)
    \<and> handle_event drv s' (KEYDOWN K_RIGHTBRACKET) = Inr (s'\<lparr>lens_radius := min 0.95 (lens_radius s' + 0.02)\<rparr>)"
proof -
  have "lens_in_range s0"
    using main_init_Inr(5,6) [OF assms(1)] by (simp add: lens_in_range_def)
  with assms(2) have "lens_in_range s" by (rule main_loop_lens)
  with assms(3) have "lens_in_range s'" by (rule process_events_lens)
  then show ?thesis by (simp add: lens_in_range_def)
qed

theorem lens_clamped_witness:
  "\<exists>s0 s s'. main_init ok_driver = Inr s0
     \<and> main_loop ok_driver s0 [[KEYDOWN K_MINUS, KEYDOWN K_RIGHTBRACKET]] = Inr s
     \<and> process_events ok_driver s [KEYDOWN K_PLUS, KEYDOWN K_EQUALS] = Inr s'
     \<and> lens_strength s' = 0.18 \<and> lens_radius s' = 0.57
     \<and> 0.02 \<le> lens_strength s' \<and> lens_strength s' \<le> 0.75
     \<and> 0.15 \<le> lens_radius s' \<and> lens_radius s' \<le> 0.95"
proof -
  obtain s0 where i: "main_init ok_driver = Inr s0"
    using main_init_ok [OF ok_driver_ok] by blast
  note f = main_init_Inr [OF i]
  let ?s1 = "(emit [PygameEventGet] s0)\<lparr>lens_strength := max 0.02 (lens_strength s0 - 0.02),
                 lens_radius := min 0.95 (lens_radius s0 + 0.02)\<rparr>"
  have pe: "process_events ok_driver (emit [PygameEventGet] s0)
              [KEYDOWN K_MINUS, KEYDOWN K_RIGHTBRACKET] = Inr ?s1"
    by (simp add: emit_def)
  have "WIN_H ?s1 \<noteq> 0" using f by (simp add: emit_def)
  from main_loop_singleI [OF \<open>running s0\<close> pe this]
  obtain s where l: "main_loop ok_driver s0 [[KEYDOWN K_MINUS, KEYDOWN K_RIGHTBRACKET]] = Inr s"
    and s: "lens_strength s = 0.14" "lens_radius s = 0.57"
    using f by (simp add: emit_def)
  obtain s' where p: "process_events ok_driver s [KEYDOWN K_PLUS, KEYDOWN K_EQUALS] = Inr s'"
    and s': "lens_strength s' = 0.18" "lens_radius s' = 0.57"
    using s by simp
  from lens_clamped [OF i l p] i l p s' show ?thesis
    by (intro exI [of _ s0] exI [of _ s] exI [of _ s']) simp
qed

subsection \<open>The camera position\<close>

lemma spherical_norm: "norm2 (spherical_to_cartesian d p y) = d * d"
proof -
  have a: "sin y * sin y + cos y * cos y = 1"
    using sin_cos_squared_add [of y] by (simp add: power2_eq_square)
  have b: "cos p * cos p + sin p * sin p = 1"
    using sin_cos_squared_add2 [of p] by (simp add: power2_eq_square)
  have "norm2 (spherical_to_cartesian d p y)
      = d * d * (cos p * cos p * (sin y * sin y + cos y * cos y) + sin p * sin p)"
    by (simp only: norm2_def spherical_to_cartesian_def prod.case, algebra)
  also have "\<dots> = d * d * (cos p * cos p + sin p * sin p)"
    by (simp only: a mult_1_right)
  also have "\<dots> = d * d"
    by (simp only: b mult_1_right)
  finally show ?thesis .
qed

text \<open>
  Claim C5. \<open>set_camera\<close> passes to \<open>gluLookAt\<close> the spherical-to-Cartesian position
  of (distance, pitch, yaw), the angles converted from degrees to radians, the centre
  (0,0,0) and the up vector (0,1,0). The position lies at the camera distance from the
  centre.
\<close>

theorem set_camera_spherical:
  "set_camera st =
     emit [GlLoadIdentity,
           GluLookAt (spherical_to_cartesian (cam_dist st) (cam_pitch st * pi / 180)
                        (cam_yaw st * pi / 180))
             (0, 0, 0) (0, 1, 0)] st
   \<and> norm2 (spherical_to_cartesian (cam_dist st) (cam_pitch st * pi / 180)
               (cam_yaw st * pi / 180)) = cam_dist st * cam_dist st"
  by (simp add: set_camera_def Let_def radians_def spherical_to_cartesian_def [symmetric]
      spherical_norm)

subsection \<open>What an input event changes\<close>

lemma only_camera_lens_changed_grid:
  "only_camera_lens_changed st st' \<Longrightarrow> show_grid st' = show_grid st"
proof -
  assume "only_camera_lens_changed st st'"
  then have "show_grid st' = show_grid (st\<lparr>cam_yaw := cam_yaw st', cam_pitch := cam_pitch st', cam_dist := cam_dist st',
              enable_lensing := enable_lensing st', lens_strength := lens_strength st',
              lens_radius := lens_radius st'\<rparr>)"
    unfolding only_camera_lens_changed_def by (rule arg_cong)
  then show ?thesis by simp
qed

text \<open>
  Claim C9, as worded, fails: key G changes \<open>show_grid\<close>, which is none of the six
  globals that the claim lists.
\<close>

theorem input_event_toggles_grid:
  "handle_event ok_driver globals (KEYDOWN K_g) = Inr (globals\<lparr>show_grid := False\<rparr>)
   \<and> \<not> only_camera_lens_changed globals (globals\<lparr>show_grid := False\<rparr>)"
proof -
  have g: "show_grid globals" by (simp add: globals_def)
  have "\<not> only_camera_lens_changed globals (globals\<lparr>show_grid := False\<rparr>)"
    using only_camera_lens_changed_grid [of globals "globals\<lparr>show_grid := False\<rparr>"] g
    by auto
  with g show ?thesis by simp
qed

lemma input_effect_KEYDOWN: "\<exists>st'. handle_event drv st (KEYDOWN k) = Inr st' \<and> input_effect st st'"
  by (simp add: input_effect_def)

lemma input_effect_MOUSEBUTTONDOWN:
  "\<exists>st'. handle_event drv st (MOUSEBUTTONDOWN b pos) = Inr st' \<and> input_effect st st'"
  by (simp add: input_effect_def)

lemma input_effect_MOUSEBUTTONUP:
  "\<exists>st'. handle_event drv st (MOUSEBUTTONUP b pos) = Inr st' \<and> input_effect st st'"
  by (simp add: input_effect_def)

lemma input_effect_MOUSEMOTION:
  "\<exists>st'. handle_event drv st (MOUSEMOTION pos) = Inr st' \<and> input_effect st st'"
  by (simp add: input_effect_def Let_def)

text \<open>
  Claim C9, amended. A keyboard or mouse event changes at most camera yaw, pitch and
  distance, the grid flag, the lensing flag, the lensing strength and radius, and the
  loop variables \<open>running\<close>, \<open>dragging\<close>, \<open>last_mx\<close> and \<open>last_my\<close>; the window
  size, the event-horizon radius, the OpenGL names and objects and the calls made so far
  stay as they are, and the handler raises no error.
\<close>

theorem input_event_effect:
  assumes "is_input_event e"
  shows "\<exists>st'. handle_event drv st e = Inr st' \<and> input_effect st st'"
  using assms
  by (cases e) (simp_all only: is_input_event.simps input_effect_KEYDOWN
      input_effect_MOUSEBUTTONDOWN input_effect_MOUSEBUTTONUP input_effect_MOUSEMOTION)

subsection \<open>The event horizon\<close>

lemma POST_FS_black:
  "frag_d u fc \<le> uEHpx u \<Longrightarrow>
   POST_FS_main u uScene fc vUV = \<lparr>gl_FragColor = (0, 0, 0, 1), texture_reads = []\<rparr>"
  by (simp add: POST_FS_main_def)

text \<open>
  Claim C2. A pixel whose distance from the screen centre is at most \<open>uEHpx\<close> gets the
  colour (0,0,0,1), and the invocation samples the scene nowhere: the result does not
  depend on the scene, on the strength or radius of the lens, or on the vignette.
\<close>

theorem event_horizon_black:
  assumes "frag_d u fc \<le> uEHpx u"
  shows "POST_FS_main u uScene fc vUV = \<lparr>gl_FragColor = (0, 0, 0, 1), texture_reads = []\<rparr>"
  using assms by (rule POST_FS_black)

lemma ex_fields: "uResolution ex_uniforms = (1280, 800)" "uStrength ex_uniforms = 0.16"
  "uRadius ex_uniforms = 0.55" "uEHpx ex_uniforms = 70"
  by (simp_all add: ex_uniforms_def)

lemma ex_d_centre: "frag_d ex_uniforms (640.5, 400.5) \<le> 70"
proof -
  have "frag_d ex_uniforms (640.5, 400.5) = sqrt (1 / 2)"
    by (simp add: frag_d_def frag_p_def length_vec2_def ex_fields)
  also have "\<dots> \<le> 70" by (rule real_le_lsqrt) simp_all
  finally show ?thesis .
qed

subsection \<open>The order of the phases of a frame\<close>

lemma handle_event_height:
  assumes "handle_event drv st e = Inr st'" and "height_nonzero st"
  shows "height_nonzero st'"
proof (cases e)
  case (VIDEORESIZE w h)
  with assms(1) show ?thesis
    using resize_Inr [of drv st w h st'] by (auto simp: height_nonzero_def)
qed (use assms in \<open>auto simp: height_nonzero_def Let_def split: if_splits\<close>)

lemma handle_event_trace:
  assumes "handle_event drv st e = Inr st'"
  shows "\<exists>hc. trace st' = trace st @ hc \<and> list_all is_handler_call hc"
proof (cases e)
  case (VIDEORESIZE w h)
  with assms(1) show ?thesis
    using resize_Inr(2) [of drv st w h st'] by auto
qed (use assms in \<open>auto simp: Let_def split: if_splits\<close>)

lemma process_events_trace:
  assumes "process_events drv st evs = Inr st'"
  shows "\<exists>hc. trace st' = trace st @ hc \<and> list_all is_handler_call hc"
  using assms
proof (induction evs arbitrary: st)
  case Nil
  then show ?case by simp
next
  case (Cons e es)
  then obtain st1 where 1: "handle_event drv st e = Inr st1"
    and 2: "process_events drv st1 es = Inr st'"
    by (auto split: sum.splits)
  from handle_event_trace [OF 1] obtain h1 where
    h1: "trace st1 = trace st @ h1" "list_all is_handler_call h1" by blast
  from Cons.IH [OF 2] obtain h2 where
    h2: "trace st' = trace st1 @ h2" "list_all is_handler_call h2" by blast
  from h1 h2 have "trace st' = trace st @ (h1 @ h2) \<and> list_all is_handler_call (h1 @ h2)"
    by simp
  then show ?case by blast
qed

lemma process_events_height:
  assumes "process_events drv st evs = Inr st'" and "height_nonzero st"
  shows "height_nonzero st'"
proof (rule process_events_invariant [where P = height_nonzero and drv = drv])
  fix st e st'
  assume "handle_event drv st e = Inr st'" and "height_nonzero st"
  then show "height_nonzero st'" by (rule handle_event_height)
qed fact+

lemma main_loop_height:
  assumes "main_loop drv st evss = Inr st'" and "height_nonzero st"
  shows "height_nonzero st'"
proof (rule main_loop_invariant [where P = height_nonzero and drv = drv])
  fix st e st'
  assume "handle_event drv st e = Inr st'" and "height_nonzero st"
  then show "height_nonzero st'" by (rule handle_event_height)
next
  fix st f
  show "height_nonzero (st\<lparr>trace := f\<rparr>) = height_nonzero st" by (simp add: height_nonzero_def)
qed fact+

text \<open>
  Claim C8. An iteration of the main loop whose event handlers raise no error makes
  exactly these calls, in this order: \<open>pygame.event.get()\<close> and the calls of the event
  handlers; the scene pass into the offscreen framebuffer (bind it, viewport, clear,
  perspective, camera, grid, scene objects, bind framebuffer 0); the postprocess pass to
  the default framebuffer (use the lensing program, set its five uniforms, bind the
  offscreen texture, draw the quad, restore); the overlay; the flip and the clock tick.
  Every call is listed with its arguments, which are read from the state that the events
  have left, and all passes run even when an event has cleared \<open>running\<close>.
\<close>

theorem frame_phase_order:
  assumes "main_init drv = Inr s0"
    and "main_loop drv s0 evss = Inr s"
    and "process_events drv (emit [PygameEventGet] s) evs = Inr s1"
  shows "\<exists>s' hc. frame drv s evs = Inr s'
     \<and> list_all is_handler_call hc
     \<and> s' = s1\<lparr>trace := trace s'\<rparr>
     \<and> trace s' = trace s @ [PygameEventGet] @ hc @
         [GlBindFramebuffer (fbo s1), GlViewport 0 0 (WIN_W s1) (WIN_H s1), GlClear,
          GlMatrixMode GL_PROJECTION, GlLoadIdentity,
          GluPerspective FOV (of_int (WIN_W s1) / of_int (WIN_H s1)) NEAR FAR,
          GlMatrixMode GL_MODELVIEW,
          GlLoadIdentity,
          GluLookAt (cam_dist s1 * cos (cam_pitch s1 * pi / 180) * sin (cam_yaw s1 * pi / 180),
                     cam_dist s1 * sin (cam_pitch s1 * pi / 180),
                     cam_dist s1 * cos (cam_pitch s1 * pi / 180) * cos (cam_yaw s1 * pi / 180))
                    (0, 0, 0) (0, 1, 0),
          DrawGrid (show_grid s1), DrawSceneObjects, GlBindFramebuffer 0] @
         [GlViewport 0 0 (WIN_W s1) (WIN_H s1), GlClear, GlDisableDepthTest,
          GlUseProgram (post_prog s1),
          GlGetUniformLocation (post_prog s1) ''uScene'',
          GlGetUniformLocation (post_prog s1) ''uResolution'',
          GlGetUniformLocation (post_prog s1) ''uStrength'',
          GlGetUniformLocation (post_prog s1) ''uRadius'',
          GlGetUniformLocation (post_prog s1) ''uEHpx'',
          GlUniform1i ''uScene'' 0, GlActiveTexture 0, GlBindTexture (scene_tex s1),
          GlUniform2f ''uResolution'' (of_int (WIN_W s1)) (of_int (WIN_H s1)),
          GlUniform1f ''uStrength'' (if enable_lensing s1 then lens_strength s1 else 0),
          GlUniform1f ''uRadius'' (lens_radius s1),
          GlUniform1f ''uEHpx'' (of_int (event_horizon_radius_px s1)),
          GlBindBuffer GL_ARRAY_BUFFER (fs_vbo s1),
          GlBindBuffer GL_ELEMENT_ARRAY_BUFFER (fs_ebo s1),
          GlGetAttribLocation (post_prog s1) ''aPos'',
          GlGetAttribLocation (post_prog s1) ''aUV'',
          GlEnableVertexAttribArray ''aPos'', GlEnableVertexAttribArray ''aUV'',
          GlVertexAttribPointer ''aPos'' 2 16 0,
          GlVertexAttribPointer ''aUV'' 2 16 8,
          GlDrawElements 6,
          GlDisableVertexAttribArray ''aPos'', GlDisableVertexAttribArray ''aUV'',
          GlBindBuffer GL_ARRAY_BUFFER 0, GlBindBuffer GL_ELEMENT_ARRAY_BUFFER 0,
          GlUseProgram 0, GlEnableDepthTest] @
         [DrawBlackHoleOverlay (WIN_W s1) (WIN_H s1) (event_horizon_radius_px s1)] @
         [PygameDisplayFlip, ClockTick 60]"
proof -
  have "height_nonzero s0" using main_init_Inr(8) [OF assms(1)] by (simp add: height_nonzero_def)
  with assms(2) have "height_nonzero s" by (rule main_loop_height)
  then have "height_nonzero (emit [PygameEventGet] s)" by (simp add: height_nonzero_def emit_def)
  with assms(3) have h: "WIN_H s1 \<noteq> 0"
    using process_events_height height_nonzero_def by blast
  let ?s' = "s1\<lparr>trace := trace s1 @ scene_calls s1 @ postprocess_calls s1 @
                      overlay_calls s1 @ present_calls\<rparr>"
  have f: "frame drv s evs = Inr ?s'"
    unfolding frame_Inr using assms(3) h by blast
  from process_events_trace [OF assms(3)] obtain hc where
    hc: "trace s1 = trace s @ [PygameEventGet] @ hc" "list_all is_handler_call hc"
    by (auto simp: emit_def)
  have sc: "scene_calls s1 =
         [GlBindFramebuffer (fbo s1), GlViewport 0 0 (WIN_W s1) (WIN_H s1), GlClear,
          GlMatrixMode GL_PROJECTION, GlLoadIdentity,
          GluPerspective FOV (of_int (WIN_W s1) / of_int (WIN_H s1)) NEAR FAR,
          GlMatrixMode GL_MODELVIEW,
          GlLoadIdentity,
          GluLookAt (cam_dist s1 * cos (cam_pitch s1 * pi / 180) * sin (cam_yaw s1 * pi / 180),
                     cam_dist s1 * sin (cam_pitch s1 * pi / 180),
                     cam_dist s1 * cos (cam_pitch s1 * pi / 180) * cos (cam_yaw s1 * pi / 180))
                    (0, 0, 0) (0, 1, 0),
          DrawGrid (show_grid s1), DrawSceneObjects, GlBindFramebuffer 0]"
    by (simp add: scene_calls_def scene_prologue_def scene_epilogue_def radians_def)
  have pc: "postprocess_calls s1 =
         [GlViewport 0 0 (WIN_W s1) (WIN_H s1), GlClear, GlDisableDepthTest,
          GlUseProgram (post_prog s1),
          GlGetUniformLocation (post_prog s1) ''uScene'',
          GlGetUniformLocation (post_prog s1) ''uResolution'',
          GlGetUniformLocation (post_prog s1) ''uStrength'',
          GlGetUniformLocation (post_prog s1) ''uRadius'',
          GlGetUniformLocation (post_prog s1) ''uEHpx'',
          GlUniform1i ''uScene'' 0, GlActiveTexture 0, GlBindTexture (scene_tex s1),
          GlUniform2f ''uResolution'' (of_int (WIN_W s1)) (of_int (WIN_H s1)),
          GlUniform1f ''uStrength'' (if enable_lensing s1 then lens_strength s1 else 0),
          GlUniform1f ''uRadius'' (lens_radius s1),
          GlUniform1f ''uEHpx'' (of_int (event_horizon_radius_px s1)),
          GlBindBuffer GL_ARRAY_BUFFER (fs_vbo s1),
          GlBindBuffer GL_ELEMENT_ARRAY_BUFFER (fs_ebo s1),
          GlGetAttribLocation (post_prog s1) ''aPos'',
          GlGetAttribLocation (post_prog s1) ''aUV'',
          GlEnableVertexAttribArray ''aPos'', GlEnableVertexAttribArray ''aUV'',
          GlVertexAttribPointer ''aPos'' 2 16 0,
          GlVertexAttribPointer ''aUV'' 2 16 8,
          GlDrawElements 6,
          GlDisableVertexAttribArray ''aPos'', GlDisableVertexAttribArray ''aUV'',
          GlBindBuffer GL_ARRAY_BUFFER 0, GlBindBuffer GL_ELEMENT_ARRAY_BUFFER 0,
          GlUseProgram 0, GlEnableDepthTest]"
    by (simp add: postprocess_calls_def post_uniforms_def)
  have tr: "trace ?s' = trace s @ [PygameEventGet] @ hc @ scene_calls s1 @ postprocess_calls s1
      @ overlay_calls s1 @ present_calls"
    by (simp add: hc(1))
  have eq: "?s' = s1\<lparr>trace := trace ?s'\<rparr>" by simp
  show ?thesis
    apply (rule exI [of _ ?s'])
    apply (rule exI [of _ hc])
    apply (intro conjI f hc(2) eq)
    apply (simp add: hc(1) sc pc overlay_calls_def present_calls_def)
    done
qed

subsection \<open>Resizing the window\<close>

lemma target_trace: "target_matches_window (st\<lparr>trace := f\<rparr>) = target_matches_window st"
  by (simp add: target_matches_window_def)

lemma main_loop_target:
  assumes "main_loop drv st evss = Inr st'" and "target_matches_window st"
  shows "target_matches_window st'"
proof (rule main_loop_invariant [where P = target_matches_window and drv = drv])
  fix st e st'
  assume "handle_event drv st e = Inr st'" and "target_matches_window st"
  then show "target_matches_window st'" by (rule handle_event_target)
next
  fix st f
  show "target_matches_window (st\<lparr>trace := f\<rparr>) = target_matches_window st"
    by (rule target_trace)
qed fact+

lemma process_events_target:
  assumes "process_events drv st evs = Inr st'" and "target_matches_window st"
  shows "target_matches_window st'"
proof (rule process_events_invariant [where P = target_matches_window and drv = drv])
  fix st e st'
  assume "handle_event drv st e = Inr st'" and "target_matches_window st"
  then show "target_matches_window st'" by (rule handle_event_target)
qed fact+

lemma released_gone:
  "framebuffers (released st) (fbo st) = None"
  "textures (released st) (scene_tex st) = None"
  "renderbuffers (released st) (rbo st) = None"
  by (simp_all add: released_def glDeleteRenderbuffers_def glDeleteTextures_def
      glDeleteFramebuffers_def)

lemma resize_ok:
  assumes "h \<noteq> 0" and "framebuffer_complete drv (w, h) (w, h)"
  shows "\<exists>st'. handle_event drv st (VIDEORESIZE w h) = Inr st'"
  using assms
  by (simp add: Let_def set_perspective_def new_target_def emit_def release_target_eq
      create_fbo_tex_eq)

text \<open>
  Claim C6. In every reachable state the offscreen target has the size of the window.
  Processing a resize event sets the window size, deletes the framebuffer, the texture
  and the renderbuffer of the old target, and then creates the new target, of the new
  size, in the OpenGL state that no longer holds the old one.
\<close>

theorem resize_recreates_target:
  assumes "main_init drv = Inr s0"
    and "main_loop drv s0 evss = Inr s"
    and "process_events drv s evs = Inr s'"
    and "handle_event drv s' (VIDEORESIZE w h) = Inr s''"
  shows "target_matches_window s'
     \<and> WIN_W s'' = w \<and> WIN_H s'' = h
     \<and> textures (gl s'') (scene_tex s'') = Some (w, h)
     \<and> renderbuffers (gl s'') (rbo s'') = Some (w, h)
     \<and> framebuffers (gl s'') (fbo s'') = Some (scene_tex s'', rbo s'')
     \<and> framebuffers (released s') (fbo s') = None
     \<and> textures (released s') (scene_tex s') = None
     \<and> renderbuffers (released s') (rbo s') = None
     \<and> create_fbo_tex drv w h (released s') = Inr ((fbo s'', scene_tex s'', rbo s''), gl s'')
     \<and> trace s'' = trace s' @
          [PygameDisplaySetMode w h, GlViewport 0 0 w h,
           GlMatrixMode GL_PROJECTION, GlLoadIdentity,
           GluPerspective FOV (of_int w / of_int h) NEAR FAR, GlMatrixMode GL_MODELVIEW,
           GlDeleteFramebuffers [fbo s'], GlDeleteTextures [scene_tex s'],
           GlDeleteRenderbuffers [rbo s'], CreateFboTex w h]"
proof -
  have "target_matches_window s0" by (rule main_init_Inr(11) [OF assms(1)])
  with assms(2) have "target_matches_window s" by (rule main_loop_target)
  with assms(3) have 1: "target_matches_window s'" by (rule process_events_target)
  with assms(4) have 2: "target_matches_window s''" by (rule handle_event_target)
  from resize_Inr(2) [OF assms(4)] obtain f t r g where
    c: "create_fbo_tex drv w h (released s') = Inr ((f, t, r), g)"
    and e: "s'' = s'\<lparr>WIN_W := w, WIN_H := h, fbo := f, scene_tex := t, rbo := r, gl := g,
                   trace := trace s' @
                     [PygameDisplaySetMode w h, GlViewport 0 0 w h,
                      GlMatrixMode GL_PROJECTION, GlLoadIdentity,
                      GluPerspective FOV (of_int w / of_int h) NEAR FAR,
                      GlMatrixMode GL_MODELVIEW,
                      GlDeleteFramebuffers [fbo s'], GlDeleteTextures [scene_tex s'],
                      GlDeleteRenderbuffers [rbo s'], CreateFboTex w h]\<rparr>"
    unfolding released_def by blast
  have 3: "WIN_W s'' = w" "WIN_H s'' = h" "fbo s'' = f" "scene_tex s'' = t" "rbo s'' = r"
    "gl s'' = g" by (simp_all add: e)
  have 4: "trace s'' = trace s' @
          [PygameDisplaySetMode w h, GlViewport 0 0 w h,
           GlMatrixMode GL_PROJECTION, GlLoadIdentity,
           GluPerspective FOV (of_int w / of_int h) NEAR FAR, GlMatrixMode GL_MODELVIEW,
           GlDeleteFramebuffers [fbo s'], GlDeleteTextures [scene_tex s'],
           GlDeleteRenderbuffers [rbo s'], CreateFboTex w h]" by (simp add: e)
  from 1 2 3 4 c show ?thesis
    by (simp add: released_gone target_matches_window_def)
qed

subsection \<open>Failing shaders\<close>

lemma main_init_link_error:
  assumes "framebuffer_complete drv (1280, 800) (1280, 800)"
    and "link_program drv POST_VS POST_FS g = Inl e"
  shows "main_init drv = Inl e"
  using assms
  by (auto simp: main_init_def new_target_def create_fbo_tex_eq create_fs_quad_eq
      link_program_eq set_perspective_def emit_def globals_def gl_initial_def Let_def
      split: if_splits)

text \<open>
  Claim C7. When the driver reports a failed compilation, \<open>compile_shader\<close> raises a
  \<open>RuntimeError\<close> whose message ends with the info log, and so does \<open>link_program\<close>, for
  either shader; when linking fails, \<open>link_program\<close> raises a \<open>RuntimeError\<close> with the
  program's info log; \<open>main()\<close> passes the error on. When compiling and linking succeed,
  the id of a compiled shader, or of a linked program, is returned.
\<close>

theorem shader_failure_raises:
  "(\<not> fst (glsl_compile drv ty src) \<longrightarrow>
      compile_shader drv src ty g =
        Inl (RuntimeError (''Shader compile error:'' @ [CHR 0x0A] @ snd (glsl_compile drv ty src))))
   \<and> (fst (glsl_compile drv ty src) \<longrightarrow>
        (\<exists>sid g' sh. compile_shader drv src ty g = Inr (sid, g') \<and> shaders g' sid = Some sh \<and>
           sh_compile_status sh \<and> sh_type sh = ty \<and> sh_source sh = src))
   \<and> (\<not> fst (glsl_compile drv GL_VERTEX_SHADER vs) \<longrightarrow>
        link_program drv vs fs g =
          Inl (RuntimeError (''Shader compile error:'' @ [CHR 0x0A] @
                 snd (glsl_compile drv GL_VERTEX_SHADER vs))))
   \<and> (fst (glsl_compile drv GL_VERTEX_SHADER vs) \<and> \<not> fst (glsl_compile drv GL_FRAGMENT_SHADER fs) \<longrightarrow>
        link_program drv vs fs g =
          Inl (RuntimeError (''Shader compile error:'' @ [CHR 0x0A] @
                 snd (glsl_compile drv GL_FRAGMENT_SHADER fs))))
   \<and> (fst (glsl_compile drv GL_VERTEX_SHADER vs) \<and> fst (glsl_compile drv GL_FRAGMENT_SHADER fs) \<and>
        \<not> fst (glsl_link drv (link_input vs fs)) \<longrightarrow>
        link_program drv vs fs g =
          Inl (RuntimeError (''Program link error:'' @ [CHR 0x0A] @
                 snd (glsl_link drv (link_input vs fs)))))
   \<and> (fst (glsl_compile drv GL_VERTEX_SHADER vs) \<and> fst (glsl_compile drv GL_FRAGMENT_SHADER fs) \<and>
        fst (glsl_link drv (link_input vs fs)) \<longrightarrow>
        (\<exists>pid g' pr. link_program drv vs fs g = Inr (pid, g') \<and> programs g' pid = Some pr \<and>
           pr_link_status pr))
   \<and> (framebuffer_complete drv (1280, 800) (1280, 800) \<and>
        link_program drv POST_VS POST_FS g = Inl e \<longrightarrow> main_init drv = Inl e)"
  by (simp add: compile_shader_eq link_program_eq main_init_link_error)

subsection \<open>The warp of the lens\<close>

lemma frag_warp_inside:
  "frag_dnorm u fc < uRadius u \<Longrightarrow>
   frag_warp u fc = uStrength u * (1 - frag_dnorm u fc / uRadius u) / (frag_dnorm u fc + 0.02)"
  by (simp add: frag_warp_def Let_def)

lemma frag_warp_outside: "uRadius u \<le> frag_dnorm u fc \<Longrightarrow> frag_warp u fc = 0"
  by (simp add: frag_warp_def Let_def)

lemma frag_disp_zero: "frag_warp u fc = 0 \<Longrightarrow> frag_disp u fc = (0, 0)"
  by (simp add: frag_disp_def)

lemma POST_FS_sampled:
  "uEHpx u < frag_d u fc \<Longrightarrow>
   POST_FS_main u uScene fc vUV =
     \<lparr>gl_FragColor = scale_rgb (uScene (frag_uv2 u fc vUV)) (clamp (frag_vig u fc) 0.8 1),
      texture_reads = [frag_uv2 u fc vUV]\<rparr>"
  by (simp add: POST_FS_main_def Let_def)

lemma frag_uv2_zero: "frag_disp u fc = (0, 0) \<Longrightarrow> frag_uv2 u fc vUV = vUV"
  by (simp add: frag_uv2_def)

lemma clamp_bounds: "lo \<le> hi \<Longrightarrow> lo \<le> clamp x lo hi \<and> clamp x lo hi \<le> hi"
  by (simp add: clamp_def)

text \<open>
  Claim C1. With \<open>dnorm = d / minHalf\<close>, \<open>d\<close> the distance of the pixel from the screen
  centre and \<open>minHalf\<close> half the smaller screen dimension: where \<open>dnorm < r\<close> the warp
  magnitude is \<open>strength * (1 - dnorm/r) / (dnorm + 0.02)\<close>; where \<open>dnorm \<ge> r\<close> it is 0.
  Outside the event horizon the scene is sampled at \<open>uv + dir * warp * (minHalf / res)\<close>,
  which for \<open>dnorm \<ge> r\<close> is the pixel's own coordinate: the displacement is zero.
  (Inside the event horizon the shader returns before it computes a warp; the parts on
  the warp speak of the value that lines 180 to 186 define.)
\<close>

theorem warp_formula:
  assumes "0 < fst (uResolution u)" and "0 < snd (uResolution u)"
  shows "frag_dnorm u fc = frag_d u fc / (min (fst (uResolution u)) (snd (uResolution u)) / 2)
       \<and> (frag_dnorm u fc < uRadius u \<longrightarrow>
            frag_warp u fc = uStrength u * (1 - frag_dnorm u fc / uRadius u) / (frag_dnorm u fc + 0.02))
       \<and> (uRadius u \<le> frag_dnorm u fc \<longrightarrow> frag_warp u fc = 0)
       \<and> (uEHpx u < frag_d u fc \<longrightarrow>
            texture_reads (POST_FS_main u uScene fc vUV) =
              [(fst vUV + fst (frag_dir u fc) * frag_warp u fc
                            * (frag_minHalf u / fst (uResolution u)),
                snd vUV + snd (frag_dir u fc) * frag_warp u fc
                            * (frag_minHalf u / snd (uResolution u)))])
       \<and> (uRadius u \<le> frag_dnorm u fc \<and> uEHpx u < frag_d u fc \<longrightarrow>
            frag_disp u fc = (0, 0) \<and> texture_reads (POST_FS_main u uScene fc vUV) = [vUV])"
proof -
  have "uEHpx u < frag_d u fc \<Longrightarrow>
      texture_reads (POST_FS_main u uScene fc vUV) =
        [(fst vUV + fst (frag_dir u fc) * frag_warp u fc * (frag_minHalf u / fst (uResolution u)),
          snd vUV + snd (frag_dir u fc) * frag_warp u fc * (frag_minHalf u / snd (uResolution u)))]"
    by (simp add: POST_FS_sampled frag_uv2_def frag_disp_def)
  moreover have "uRadius u \<le> frag_dnorm u fc \<Longrightarrow> uEHpx u < frag_d u fc \<Longrightarrow>
      frag_disp u fc = (0, 0) \<and> texture_reads (POST_FS_main u uScene fc vUV) = [vUV]"
    by (simp add: frag_warp_outside frag_disp_zero POST_FS_sampled frag_uv2_zero)
  moreover have "frag_dnorm u fc = frag_d u fc / (min (fst (uResolution u)) (snd (uResolution u)) / 2)"
    by (simp add: frag_dnorm_def frag_minHalf_def)
  ultimately show ?thesis
    using frag_warp_inside [of u fc] frag_warp_outside [of u fc] by blast
qed

lemma sqrt_22500: "sqrt 22500 = 150" by (rule real_sqrt_unique) simp_all

lemma sqrt_90000: "sqrt 90000 = 300" by (rule real_sqrt_unique) simp_all

lemma ex_d1: "frag_d ex_uniforms (730, 520) = 150"
  by (simp add: frag_d_def frag_p_def length_vec2_def ex_fields sqrt_22500)

lemma ex_d2: "frag_d ex_uniforms (820, 640) = 300"
  by (simp add: frag_d_def frag_p_def length_vec2_def ex_fields sqrt_90000)

lemma ex_mh: "frag_minHalf ex_uniforms = 400"
  by (simp add: frag_minHalf_def ex_fields)

lemma ex_dnorm1: "frag_dnorm ex_uniforms (730, 520) = 3 / 8"
  by (simp add: frag_dnorm_def ex_d1 ex_mh)

lemma ex_dnorm2: "frag_dnorm ex_uniforms (820, 640) = 3 / 4"
  by (simp add: frag_dnorm_def ex_d2 ex_mh)

theorem warp_formula_witness:
  "0 < fst (uResolution ex_uniforms) \<and> 0 < snd (uResolution ex_uniforms)
   \<and> frag_dnorm ex_uniforms (730, 520) < uRadius ex_uniforms
   \<and> frag_warp ex_uniforms (730, 520) = 0.16 * (1 - (3 / 8) / 0.55) / (3 / 8 + 0.02)
   \<and> uRadius ex_uniforms \<le> frag_dnorm ex_uniforms (820, 640)
   \<and> uEHpx ex_uniforms < frag_d ex_uniforms (820, 640)
   \<and> frag_warp ex_uniforms (820, 640) = 0
   \<and> frag_disp ex_uniforms (820, 640) = (0, 0)
   \<and> texture_reads (POST_FS_main ex_uniforms ex_scene (820, 640) (0.64, 0.8)) = [(0.64, 0.8)]"
proof -
  have r: "0 < fst (uResolution ex_uniforms)" "0 < snd (uResolution ex_uniforms)"
    by (simp_all add: ex_fields)
  have a: "frag_dnorm ex_uniforms (730, 520) < uRadius ex_uniforms"
    by (simp add: ex_fields ex_dnorm1)
  have b: "uRadius ex_uniforms \<le> frag_dnorm ex_uniforms (820, 640)"
    "uEHpx ex_uniforms < frag_d ex_uniforms (820, 640)"
    by (simp_all add: ex_fields ex_dnorm2 ex_d2)
  from warp_formula [OF r, of "(730, 520)" ex_scene "(0.64, 0.8)"] a
  have 1: "frag_warp ex_uniforms (730, 520) = 0.16 * (1 - (3 / 8) / 0.55) / (3 / 8 + 0.02)"
    by (simp add: ex_fields ex_dnorm1)
  from warp_formula [OF r, of "(820, 640)" ex_scene "(0.64, 0.8)"] b
  have 2: "frag_warp ex_uniforms (820, 640) = 0" "frag_disp ex_uniforms (820, 640) = (0, 0)"
    "texture_reads (POST_FS_main ex_uniforms ex_scene (820, 640) (0.64, 0.8)) = [(0.64, 0.8)]"
    by simp_all
  from r a b 1 2 show ?thesis by simp
qed

theorem event_horizon_black_witness:
  "frag_d ex_uniforms (640.5, 400.5) \<le> uEHpx ex_uniforms \<and>
   POST_FS_main ex_uniforms ex_scene (640.5, 400.5) (0.5, 0.5)
     = \<lparr>gl_FragColor = (0, 0, 0, 1), texture_reads = []\<rparr>"
  using event_horizon_black [of ex_uniforms "(640.5, 400.5)" ex_scene "(0.5, 0.5)"] ex_d_centre
  by (simp add: ex_fields)

subsection \<open>Lensing switched off\<close>

text \<open>
  Claim C10. With lensing off the strength uniform is 0 (the other uniforms are the
  window size, the lens radius and the event-horizon radius). Then for a pixel outside
  the event-horizon radius the displacement is zero, the scene is sampled at the pixel's
  own coordinate, and the colour written is the sampled colour with red, green and blue
  multiplied by the vignette \<open>k = min(max(1 - dnorm^2 * 0.25, 0.8), 1)\<close>, which lies in
  [0.8, 1.0], and alpha unchanged; a pixel within the event-horizon radius is black.
\<close>

theorem lensing_off_no_displacement:
  assumes "\<not> enable_lensing st"
  shows "uStrength (post_uniforms st) = 0
     \<and> uResolution (post_uniforms st) = (of_int (WIN_W st), of_int (WIN_H st))
     \<and> uRadius (post_uniforms st) = lens_radius st
     \<and> uEHpx (post_uniforms st) = of_int (event_horizon_radius_px st)
     \<and> frag_d (post_uniforms st) fc =
           sqrt ((fst fc - of_int (WIN_W st) / 2) * (fst fc - of_int (WIN_W st) / 2)
               + (snd fc - of_int (WIN_H st) / 2) * (snd fc - of_int (WIN_H st) / 2))
     \<and> (let k = min (max (1 - (frag_dnorm (post_uniforms st) fc) powr 2 * 0.25) 0.8) 1
        in 0.8 \<le> k \<and> k \<le> 1
          \<and> (of_int (event_horizon_radius_px st) < frag_d (post_uniforms st) fc
               \<and> uScene vUV = (r, g, b, a) \<longrightarrow>
               frag_disp (post_uniforms st) fc = (0, 0)
               \<and> POST_FS_main (post_uniforms st) uScene fc vUV =
                   \<lparr>gl_FragColor = (r * k, g * k, b * k, a), texture_reads = [vUV]\<rparr>))
     \<and> (frag_d (post_uniforms st) fc \<le> of_int (event_horizon_radius_px st) \<longrightarrow>
          POST_FS_main (post_uniforms st) uScene fc vUV =
            \<lparr>gl_FragColor = (0, 0, 0, 1), texture_reads = []\<rparr>)"
proof -
  let ?u = "post_uniforms st"
  have s: "uStrength ?u = 0" using assms by (simp add: post_uniforms_def)
  have u: "uResolution ?u = (of_int (WIN_W st), of_int (WIN_H st))"
    "uRadius ?u = lens_radius st" "uEHpx ?u = of_int (event_horizon_radius_px st)"
    by (simp_all add: post_uniforms_def)
  have fd: "frag_d ?u fc =
           sqrt ((fst fc - of_int (WIN_W st) / 2) * (fst fc - of_int (WIN_W st) / 2)
               + (snd fc - of_int (WIN_H st) / 2) * (snd fc - of_int (WIN_H st) / 2))"
    by (simp add: frag_d_def frag_p_def length_vec2_def u)
  from s have w: "frag_warp ?u fc = 0" by (simp add: frag_warp_def Let_def)
  then have d: "frag_disp ?u fc = (0, 0)" by (rule frag_disp_zero)
  then have uv: "frag_uv2 ?u fc vUV = vUV" by (rule frag_uv2_zero)
  have k: "clamp (frag_vig ?u fc) 0.8 1 = min (max (1 - (frag_dnorm ?u fc) powr 2 * 0.25) 0.8) 1"
    by (simp add: clamp_def frag_vig_def pow_def)
  have kb: "0.8 \<le> min (max (1 - (frag_dnorm ?u fc) powr 2 * 0.25) 0.8) (1::real)"
    "min (max (1 - (frag_dnorm ?u fc) powr 2 * 0.25) 0.8) (1::real) \<le> 1"
    by simp_all
  have out: "POST_FS_main ?u uScene fc vUV =
        \<lparr>gl_FragColor = (r * min (max (1 - (frag_dnorm ?u fc) powr 2 * 0.25) 0.8) 1,
                          g * min (max (1 - (frag_dnorm ?u fc) powr 2 * 0.25) 0.8) 1,
                          b * min (max (1 - (frag_dnorm ?u fc) powr 2 * 0.25) 0.8) 1, a),
         texture_reads = [vUV]\<rparr>"
    if h: "uEHpx ?u < frag_d ?u fc" and c: "uScene vUV = (r, g, b, a)"
    unfolding POST_FS_sampled [OF h] uv c k scale_rgb_def prod.case by (rule refl)
  have inside: "frag_d ?u fc \<le> uEHpx ?u \<Longrightarrow>
      POST_FS_main ?u uScene fc vUV = \<lparr>gl_FragColor = (0, 0, 0, 1), texture_reads = []\<rparr>"
    by (rule POST_FS_black)
  show ?thesis
    unfolding Let_def
    apply (intro conjI s u fd kb impI)
      apply (rule d)
     apply (rule out)
      apply (simp only: u)
     apply (elim conjE, assumption)
    apply (rule inside)
    apply (simp only: u)
    done
qed

lemma off_uniforms:
  "post_uniforms lensing_off_state = ex_uniforms\<lparr>uStrength := 0\<rparr>"
  by (simp add: post_uniforms_def lensing_off_state_def globals_def ex_uniforms_def)

lemma off_d: "frag_d (post_uniforms lensing_off_state) fc = frag_d ex_uniforms fc"
  by (simp add: off_uniforms frag_d_def frag_p_def ex_uniforms_def)

lemma off_eh: "uEHpx (post_uniforms lensing_off_state) = 70"
  by (simp add: off_uniforms ex_uniforms_def)

lemma off_mh: "frag_minHalf (post_uniforms lensing_off_state) = 400"
  by (simp add: frag_minHalf_def off_uniforms ex_uniforms_def)

lemma off_dnorm: "frag_dnorm (post_uniforms lensing_off_state) (820, 640) = 3 / 4"
  by (simp add: frag_dnorm_def off_d ex_d2 off_mh)

lemma off_k: "min (max (1 - ((3::real) / 4) powr 2 * 0.25) 0.8) 1 = 55 / 64"
proof -
  have "((3::real) / 4) powr 2 = (3 / 4)\<^sup>2" by (simp add: powr_numeral)
  then show ?thesis by (simp add: power2_eq_square)
qed

theorem lensing_off_no_displacement_witness:
  "\<not> enable_lensing lensing_off_state
   \<and> uStrength (post_uniforms lensing_off_state) = 0
   \<and> of_int (event_horizon_radius_px lensing_off_state)
        < frag_d (post_uniforms lensing_off_state) (820, 640)
   \<and> ex_scene (0.64, 0.8) = (0.64, 0.8, 0.5, 1)
   \<and> POST_FS_main (post_uniforms lensing_off_state) ex_scene (820, 640) (0.64, 0.8) =
        \<lparr>gl_FragColor = (0.64 * (55 / 64), 0.8 * (55 / 64), 0.5 * (55 / 64), 1),
         texture_reads = [(0.64, 0.8)]\<rparr>
   \<and> frag_d (post_uniforms lensing_off_state) (640.5, 400.5)
        \<le> of_int (event_horizon_radius_px lensing_off_state)
   \<and> POST_FS_main (post_uniforms lensing_off_state) ex_scene (640.5, 400.5) (0.5, 0.5) =
        \<lparr>gl_FragColor = (0, 0, 0, 1), texture_reads = []\<rparr>"
proof -
  have e: "\<not> enable_lensing lensing_off_state" by (simp add: lensing_off_state_def)
  have eh: "real_of_int (event_horizon_radius_px lensing_off_state) = 70"
    by (simp add: lensing_off_state_def globals_def)
  have 1: "of_int (event_horizon_radius_px lensing_off_state)
        < frag_d (post_uniforms lensing_off_state) (820, 640)"
    by (simp add: eh off_d ex_d2)
  have 2: "frag_d (post_uniforms lensing_off_state) (640.5, 400.5)
        \<le> of_int (event_horizon_radius_px lensing_off_state)"
    using ex_d_centre by (simp add: eh off_d)
  have sc: "ex_scene (0.64, 0.8) = (0.64, 0.8, 0.5, 1)" by (simp add: ex_scene_def)
  note a = lensing_off_no_displacement [OF e, of "(820, 640)" ex_scene "(0.64, 0.8)" "0.64" "0.8" "0.5" 1]
  note b = lensing_off_no_displacement [OF e, of "(640.5, 400.5)" ex_scene "(0.5, 0.5)" 0 0 0 0]
  have 3: "POST_FS_main (post_uniforms lensing_off_state) ex_scene (820, 640) (0.64, 0.8) =
        \<lparr>gl_FragColor = (0.64 * (55 / 64), 0.8 * (55 / 64), 0.5 * (55 / 64), 1),
         texture_reads = [(0.64, 0.8)]\<rparr>"
    using a 1 sc unfolding Let_def off_dnorm off_k by blast
  have 4: "POST_FS_main (post_uniforms lensing_off_state) ex_scene (640.5, 400.5) (0.5, 0.5) =
        \<lparr>gl_FragColor = (0, 0, 0, 1), texture_reads = []\<rparr>"
    using b 2 by blast
  have 0: "uStrength (post_uniforms lensing_off_state) = 0" using a by blast
  from e 0 1 sc 3 4 2 show ?thesis by blast
qed

theorem input_event_effect_witness:
  "is_input_event (KEYDOWN K_g)
   \<and> (\<exists>st'. handle_event ok_driver globals (KEYDOWN K_g) = Inr st' \<and> input_effect globals st')"
  using input_event_effect [of "KEYDOWN K_g" ok_driver globals] by simp

subsection \<open>Concrete runs\<close>

lemma ok_driver_fields:
  "glsl_compile ok_driver ty src = (True, [])" "glsl_link ok_driver ss = (True, [])"
  "framebuffer_complete ok_driver t r \<longleftrightarrow> t = r \<and> 0 < fst t \<and> 0 < snd t"
  by (simp_all add: ok_driver_def)

lemma bad_compile_driver_fields:
  "glsl_compile bad_compile_driver ty src = (ty = GL_VERTEX_SHADER \<and> src \<noteq> [], ''0:1: syntax error'')"
  by (simp add: bad_compile_driver_def)

lemma bad_link_driver_fields:
  "glsl_compile bad_link_driver ty src = (True, [])"
  "glsl_link bad_link_driver ss = (False, ''varying vUV not written'')"
  "framebuffer_complete bad_link_driver t r \<longleftrightarrow> t = r \<and> 0 < fst t \<and> 0 < snd t"
  by (simp_all add: bad_link_driver_def)

lemma POST_VS_nonempty: "POST_VS \<noteq> []"
  by (simp add: POST_VS_def)

theorem shader_failure_raises_witness:
  "compile_shader bad_compile_driver POST_FS GL_FRAGMENT_SHADER gl_initial =
      Inl (RuntimeError (''Shader compile error:'' @ [CHR 0x0A] @ ''0:1: syntax error''))
   \<and> (\<exists>sid g' sh. compile_shader ok_driver POST_VS GL_VERTEX_SHADER gl_initial = Inr (sid, g') \<and>
         shaders g' sid = Some sh \<and> sh_compile_status sh \<and> sh_type sh = GL_VERTEX_SHADER \<and>
         sh_source sh = POST_VS)
   \<and> link_program bad_compile_driver [] POST_FS gl_initial =
      Inl (RuntimeError (''Shader compile error:'' @ [CHR 0x0A] @ ''0:1: syntax error''))
   \<and> link_program bad_compile_driver POST_VS POST_FS gl_initial =
      Inl (RuntimeError (''Shader compile error:'' @ [CHR 0x0A] @ ''0:1: syntax error''))
   \<and> link_program bad_link_driver POST_VS POST_FS gl_initial =
      Inl (RuntimeError (''Program link error:'' @ [CHR 0x0A] @ ''varying vUV not written''))
   \<and> (\<exists>pid g' pr. link_program ok_driver POST_VS POST_FS gl_initial = Inr (pid, g') \<and>
         programs g' pid = Some pr \<and> pr_link_status pr)
   \<and> main_init bad_link_driver =
      Inl (RuntimeError (''Program link error:'' @ [CHR 0x0A] @ ''varying vUV not written''))"
proof -
  note a = shader_failure_raises [of bad_compile_driver GL_FRAGMENT_SHADER POST_FS gl_initial "[]" POST_FS]
  note b = shader_failure_raises [of ok_driver GL_VERTEX_SHADER POST_VS gl_initial POST_VS POST_FS]
  note c = shader_failure_raises [of bad_compile_driver GL_VERTEX_SHADER POST_VS gl_initial POST_VS POST_FS]
  note d = shader_failure_raises [of bad_link_driver GL_VERTEX_SHADER POST_VS gl_initial POST_VS POST_FS
             "RuntimeError (''Program link error:'' @ [CHR 0x0A] @ ''varying vUV not written'')"]
  have 1: "compile_shader bad_compile_driver POST_FS GL_FRAGMENT_SHADER gl_initial =
      Inl (RuntimeError (''Shader compile error:'' @ [CHR 0x0A] @ ''0:1: syntax error''))"
    using a by (simp add: bad_compile_driver_fields)
  have 3: "link_program bad_compile_driver [] POST_FS gl_initial =
      Inl (RuntimeError (''Shader compile error:'' @ [CHR 0x0A] @ ''0:1: syntax error''))"
    using a by (simp add: bad_compile_driver_fields)
  have 2: "\<exists>sid g' sh. compile_shader ok_driver POST_VS GL_VERTEX_SHADER gl_initial = Inr (sid, g') \<and>
         shaders g' sid = Some sh \<and> sh_compile_status sh \<and> sh_type sh = GL_VERTEX_SHADER \<and>
         sh_source sh = POST_VS"
    using b by (simp add: ok_driver_fields)
  have 6: "\<exists>pid g' pr. link_program ok_driver POST_VS POST_FS gl_initial = Inr (pid, g') \<and>
         programs g' pid = Some pr \<and> pr_link_status pr"
    using b by (simp add: ok_driver_fields)
  have 4: "link_program bad_compile_driver POST_VS POST_FS gl_initial =
      Inl (RuntimeError (''Shader compile error:'' @ [CHR 0x0A] @ ''0:1: syntax error''))"
    using c by (simp add: bad_compile_driver_fields POST_VS_nonempty)
  have 5: "link_program bad_link_driver POST_VS POST_FS gl_initial =
      Inl (RuntimeError (''Program link error:'' @ [CHR 0x0A] @ ''varying vUV not written''))"
    using d by (simp add: bad_link_driver_fields)
  have 7: "main_init bad_link_driver =
      Inl (RuntimeError (''Program link error:'' @ [CHR 0x0A] @ ''varying vUV not written''))"
    using d 5 by (simp add: bad_link_driver_fields)
  from 1 2 3 4 5 6 7 show ?thesis by blast
qed

theorem resize_recreates_target_witness:
  "\<exists>s0 s s' s''. main_init ok_driver = Inr s0
     \<and> main_loop ok_driver s0 [[KEYDOWN K_g]] = Inr s
     \<and> process_events ok_driver s [MOUSEBUTTONDOWN 4 (0, 0)] = Inr s'
     \<and> handle_event ok_driver s' (VIDEORESIZE 640 480) = Inr s''
     \<and> target_matches_window s'
     \<and> WIN_W s'' = 640 \<and> WIN_H s'' = 480
     \<and> textures (gl s'') (scene_tex s'') = Some (640, 480)
     \<and> renderbuffers (gl s'') (rbo s'') = Some (640, 480)
     \<and> framebuffers (gl s'') (fbo s'') = Some (scene_tex s'', rbo s'')
     \<and> textures (released s') (scene_tex s') = None"
proof -
  obtain s0 where i: "main_init ok_driver = Inr s0"
    using main_init_ok [OF ok_driver_ok] by blast
  note f = main_init_Inr [OF i]
  let ?s1 = "(emit [PygameEventGet] s0)\<lparr>show_grid := \<not> show_grid s0\<rparr>"
  have pe: "process_events ok_driver (emit [PygameEventGet] s0) [KEYDOWN K_g] = Inr ?s1"
    by (simp add: emit_def)
  have "WIN_H ?s1 \<noteq> 0" using f by (simp add: emit_def)
  from main_loop_singleI [OF \<open>running s0\<close> pe this]
  obtain s where l: "main_loop ok_driver s0 [[KEYDOWN K_g]] = Inr s" by blast
  obtain s' where p: "process_events ok_driver s [MOUSEBUTTONDOWN 4 (0, 0)] = Inr s'"
    by simp
  obtain s'' where r: "handle_event ok_driver s' (VIDEORESIZE 640 480) = Inr s''"
    using resize_ok [of 480 ok_driver 640 s'] by (auto simp: ok_driver_fields)
  from resize_recreates_target [OF i l p r] i l p r show ?thesis
    by (intro exI [of _ s0] exI [of _ s] exI [of _ s'] exI [of _ s'']) simp
qed

theorem frame_phase_order_witness:
  "\<exists>s0 s s1. main_init ok_driver = Inr s0
     \<and> main_loop ok_driver s0 [[KEYDOWN K_l]] = Inr s
     \<and> process_events ok_driver (emit [PygameEventGet] s) [VIDEORESIZE 640 480, QUIT] = Inr s1
     \<and> \<not> running s1
     \<and> (\<exists>s' hc. frame ok_driver s [VIDEORESIZE 640 480, QUIT] = Inr s'
     \<and> list_all is_handler_call hc
     \<and> s' = s1\<lparr>trace := trace s'\<rparr>
     \<and> trace s' = trace s @ [PygameEventGet] @ hc @
         [GlBindFramebuffer (fbo s1), GlViewport 0 0 (WIN_W s1) (WIN_H s1), GlClear,
          GlMatrixMode GL_PROJECTION, GlLoadIdentity,
          GluPerspective FOV (of_int (WIN_W s1) / of_int (WIN_H s1)) NEAR FAR,
          GlMatrixMode GL_MODELVIEW,
          GlLoadIdentity,
          GluLookAt (cam_dist s1 * cos (cam_pitch s1 * pi / 180) * sin (cam_yaw s1 * pi / 180),
                     cam_dist s1 * sin (cam_pitch s1 * pi / 180),
                     cam_dist s1 * cos (cam_pitch s1 * pi / 180) * cos (cam_yaw s1 * pi / 180))
                    (0, 0, 0) (0, 1, 0),
          DrawGrid (show_grid s1), DrawSceneObjects, GlBindFramebuffer 0] @
         [GlViewport 0 0 (WIN_W s1) (WIN_H s1), GlClear, GlDisableDepthTest,
          GlUseProgram (post_prog s1),
          GlGetUniformLocation (post_prog s1) ''uScene'',
          GlGetUniformLocation (post_prog s1) ''uResolution'',
          GlGetUniformLocation (post_prog s1) ''uStrength'',
          GlGetUniformLocation (post_prog s1) ''uRadius'',
          GlGetUniformLocation (post_prog s1) ''uEHpx'',
          GlUniform1i ''uScene'' 0, GlActiveTexture 0, GlBindTexture (scene_tex s1),
          GlUniform2f ''uResolution'' (of_int (WIN_W s1)) (of_int (WIN_H s1)),
          GlUniform1f ''uStrength'' (if enable_lensing s1 then lens_strength s1 else 0),
          GlUniform1f ''uRadius'' (lens_radius s1),
          GlUniform1f ''uEHpx'' (of_int (event_horizon_radius_px s1)),
          GlBindBuffer GL_ARRAY_BUFFER (fs_vbo s1),
          GlBindBuffer GL_ELEMENT_ARRAY_BUFFER (fs_ebo s1),
          GlGetAttribLocation (post_prog s1) ''aPos'',
          GlGetAttribLocation (post_prog s1) ''aUV'',
          GlEnableVertexAttribArray ''aPos'', GlEnableVertexAttribArray ''aUV'',
          GlVertexAttribPointer ''aPos'' 2 16 0,
          GlVertexAttribPointer ''aUV'' 2 16 8,
          GlDrawElements 6,
          GlDisableVertexAttribArray ''aPos'', GlDisableVertexAttribArray ''aUV'',
          GlBindBuffer GL_ARRAY_BUFFER 0, GlBindBuffer GL_ELEMENT_ARRAY_BUFFER 0,
          GlUseProgram 0, GlEnableDepthTest] @
         [DrawBlackHoleOverlay (WIN_W s1) (WIN_H s1) (event_horizon_radius_px s1)] @
         [PygameDisplayFlip, ClockTick 60])"
proof -
  obtain s0 where i: "main_init ok_driver = Inr s0"
    using main_init_ok [OF ok_driver_ok] by blast
  note f = main_init_Inr [OF i]
  let ?s1 = "(emit [PygameEventGet] s0)\<lparr>enable_lensing := \<not> enable_lensing s0\<rparr>"
  have pe: "process_events ok_driver (emit [PygameEventGet] s0) [KEYDOWN K_l] = Inr ?s1"
    by (simp add: emit_def)
  have "WIN_H ?s1 \<noteq> 0" using f by (simp add: emit_def)
  from main_loop_singleI [OF \<open>running s0\<close> pe this]
  obtain s where l: "main_loop ok_driver s0 [[KEYDOWN K_l]] = Inr s" by blast
  obtain t where r: "handle_event ok_driver (emit [PygameEventGet] s) (VIDEORESIZE 640 480) = Inr t"
    using resize_ok [of 480 ok_driver 640 "emit [PygameEventGet] s"] by (auto simp: ok_driver_fields)
  then have p: "process_events ok_driver (emit [PygameEventGet] s) [VIDEORESIZE 640 480, QUIT]
      = Inr (t\<lparr>running := False\<rparr>)"
    by simp
  have nr: "\<not> running (t\<lparr>running := False\<rparr>)" by simp
  note e = frame_phase_order [OF i l p]
  show ?thesis
    apply (rule exI [of _ s0])
    apply (rule exI [of _ s])
    apply (rule exI [of _ "t\<lparr>running := False\<rparr>"])
    apply (intro conjI i l p nr e)
    done
qed

end
